theory Spec2Isabelle
  imports Complex_Main
begin

section \<open>JavaScript values used by the driver\<close>

text \<open>
  A thrown \<^verbatim>\<open>Error\<close> is a value carrying its message; every \<^verbatim>\<open>throw\<close> and every rejected
  promise of the source is the left injection of a sum.
\<close>

datatype error = Error (message: string)

text \<open>A field of type \<^verbatim>\<open>string | null\<close> that the code can also set to \<^verbatim>\<open>undefined\<close>.\<close>

datatype jsstring = JsNull | JsUndefined | JsStr string

text \<open>String conversion as done by \<^verbatim>\<open>+\<close> and by template literals.\<close>

fun toString :: "jsstring \<Rightarrow> string" where
  "toString JsNull = ''null''"
| "toString JsUndefined = ''undefined''"
| "toString (JsStr s) = s"

definition digitChar :: "nat \<Rightarrow> char" where
  "digitChar d = ''0123456789'' ! d"

fun showNat :: "nat \<Rightarrow> string" where
  "showNat n = (if n < 10 then [digitChar n] else showNat (n div 10) @ [digitChar (n mod 10)])"

declare showNat.simps [simp del]

section \<open>JavaScript numbers\<close>

text \<open>
  A number is an IEEE 754 double: not-a-number, an infinity, negative zero, or a finite
  value given by the rational it stands for (positive zero is \<open>Fin 0\<close>).
\<close>

datatype number = NaN | PosInfinity | NegInfinity | NegZero | Fin rat

fun bitLength :: "nat \<Rightarrow> nat" where
  "bitLength n = (if n = 0 then 0 else Suc (bitLength (n div 2)))"

declare bitLength.simps [simp del]

definition pow2 :: "int \<Rightarrow> rat" where
  "pow2 e = (if 0 \<le> e then 2 ^ nat e else 1 / 2 ^ nat (- e))"

text \<open>The exponent of the leading bit of a positive rational.\<close>

definition flog2 :: "rat \<Rightarrow> int" where
  "flog2 a =
     (if 1 \<le> a then int (bitLength (nat \<lfloor>a\<rfloor>)) - 1
      else - int (bitLength (nat (- \<lfloor>- (1 / a)\<rfloor> - 1))))"

definition roundHalfEven :: "rat \<Rightarrow> int" where
  "roundHalfEven r =
     (let f = \<lfloor>r\<rfloor>; d = r - of_int f in
      if d < 1 / 2 then f
      else if 1 / 2 < d then f + 1
      else if even f then f else f + 1)"

text \<open>
  Rounding of an exact value to the nearest double, ties to even: 53 significant bits,
  steps of \<open>2 ^ -1074\<close> for the subnormal values, and an infinity from \<open>2 ^ 1024\<close> on.
\<close>

definition toDouble :: "rat \<Rightarrow> number" where
  "toDouble x =
     (if x = 0 then Fin 0
      else
        (let a = \<bar>x\<bar>;
             e = max (flog2 a - 52) (- 1074);
             m = roundHalfEven (a / pow2 e);
             v = of_int m * pow2 e
         in if 2 ^ 1024 \<le> v then (if x < 0 then NegInfinity else PosInfinity)
            else if m = 0 then (if x < 0 then NegZero else Fin 0)
            else Fin (if x < 0 then - v else v)))"

text \<open>The operator \<^verbatim>\<open>+\<close> on two numbers.\<close>

fun jsAdd :: "number \<Rightarrow> number \<Rightarrow> number" where
  "jsAdd NaN y = NaN"
| "jsAdd x NaN = NaN"
| "jsAdd PosInfinity NegInfinity = NaN"
| "jsAdd NegInfinity PosInfinity = NaN"
| "jsAdd PosInfinity y = PosInfinity"
| "jsAdd x PosInfinity = PosInfinity"
| "jsAdd NegInfinity y = NegInfinity"
| "jsAdd x NegInfinity = NegInfinity"
| "jsAdd NegZero y = y"
| "jsAdd x NegZero = x"
| "jsAdd (Fin p) (Fin q) = toDouble (p + q)"

text \<open>The numbers that count as false: not-a-number and the two zeros.\<close>

definition falsy :: "number \<Rightarrow> bool" where
  "falsy x = (x = NaN \<or> x = NegZero \<or> x = Fin 0)"

section \<open>Payload types\<close>

text \<open>
  Modelled from the spec: the declarations of \<^verbatim>\<open>./types\<close> (\<^verbatim>\<open>ApiMeters\<close>,
  \<^verbatim>\<open>ApiMeterReadings\<close>, \<^verbatim>\<open>ApiProduction\<close>) are not part of the sources at hand. The
  records below keep the fields the driver reads: a meter descriptor has an \<^verbatim>\<open>eid\<close> and a
  \<^verbatim>\<open>measurementType\<close>, a meter reading an \<^verbatim>\<open>eid\<close> and a signed \<^verbatim>\<open>activePower\<close>, and the
  production report a list of entries whose first one carries \<^verbatim>\<open>wNow\<close> and a watt-hours
  figure, all three of them numbers.
\<close>

record meter =
  eid :: nat
  measurementType :: string

record meterReading =
  readingEid :: nat
  activePower :: number

record productionEntry =
  wNow :: number
  wattHoursToday :: number

record productionReport =
  production :: "productionEntry list"

datatype payload =
    LoginJson string
  | ProductionJson productionReport
  | MetersJson "meter list"
  | ReadingsJson "meterReading list"

section \<open>The network\<close>

datatype httpMethod = GET | POST

datatype requestBody =
    NoBody
  | FormBody "(string \<times> string) list"
  | JsonBody "(string \<times> string) list"

record request =
  reqMethod :: httpMethod
  reqUrl :: string
  reqHeaders :: "(string \<times> string) list"
  reqBody :: requestBody
  allowSelfSigned :: bool

text \<open>
  A response as the driver reads it: the status, the body as \<^verbatim>\<open>text()\<close> gives it, the
  body as \<^verbatim>\<open>json()\<close> gives it (a rejection when the body does not parse), and the
  \<^verbatim>\<open>set-cookie\<close> header (absent: \<^verbatim>\<open>headers.get\<close> returns null).
\<close>

record response =
  status :: nat
  bodyText :: string
  bodyJson :: "error + payload"
  setCookie :: "string option"

definition ok :: "response \<Rightarrow> bool" where
  "ok r = (200 \<le> status r \<and> status r < 300)"

text \<open>\<^verbatim>\<open>fetch\<close> either rejects (transport failure) or resolves with a response.\<close>

datatype outcome = Failed string | Answered response

text \<open>
  The environment is a script: the outcome of the k-th request issued, for every k,
  together with the requests issued so far.
\<close>

record net =
  responses :: "nat \<Rightarrow> outcome"
  sent :: "request list"

definition fetch :: "request \<Rightarrow> net \<Rightarrow> (error + response) \<times> net" where
  "fetch req n =
     (case responses n (length (sent n)) of
        Failed m \<Rightarrow> Inl (Error m)
      | Answered r \<Rightarrow> Inr r,
      n\<lparr>sent := sent n @ [req]\<rparr>)"

section \<open>api.ts: the session client\<close>

record api =
  address :: "string option"
  deviceSn :: string
  username :: string
  password :: string
  accessToken :: "string option"
  sessionId :: jsstring

definition constructor :: "string option \<Rightarrow> string \<Rightarrow> string \<Rightarrow> string \<Rightarrow> api" where
  "constructor a sn u p =
     \<lparr>address = a, deviceSn = sn, username = u, password = p,
      accessToken = None, sessionId = JsNull\<rparr>"

definition setCredentials :: "string \<Rightarrow> string \<Rightarrow> api \<Rightarrow> api" where
  "setCredentials u p a = a\<lparr>username := u, password := p\<rparr>"

text \<open>
  A JSON body of another shape than the declared type is outside the typed interface;
  the model lets the read of such a body fail like an unparsable one.
\<close>

definition unexpectedShape :: error where
  "unexpectedShape = Error ''Unexpected response body''"

definition loginRequest :: "string \<Rightarrow> string \<Rightarrow> request" where
  "loginRequest u p =
     \<lparr>reqMethod = POST,
      reqUrl = ''https://enlighten.enphaseenergy.com/login/login.json'',
      reqHeaders = [],
      reqBody = FormBody [(''user[email]'', u), (''user[password]'', p)],
      allowSelfSigned = False\<rparr>"

definition getEnphaseSessionId :: "string \<Rightarrow> string \<Rightarrow> net \<Rightarrow> (error + string) \<times> net" where
  "getEnphaseSessionId u p n =
     (case fetch (loginRequest u p) n of
        (Inl e, n1) \<Rightarrow> (Inl e, n1)
      | (Inr authResponse, n1) \<Rightarrow>
          if \<not> ok authResponse then
            (Inl (Error ''Failed to authenticate to Enphase - are your username and password correct?''), n1)
          else
            (case bodyJson authResponse of
               Inl e \<Rightarrow> (Inl e, n1)
             | Inr (LoginJson sid) \<Rightarrow> (Inr sid, n1)
             | Inr _ \<Rightarrow> (Inl unexpectedShape, n1)))"

definition tokenRequest :: "string \<Rightarrow> api \<Rightarrow> request" where
  "tokenRequest sid a =
     \<lparr>reqMethod = POST,
      reqUrl = ''https://entrez.enphaseenergy.com/tokens'',
      reqHeaders = [(''Content-Type'', ''application/json'')],
      reqBody = JsonBody [(''session_id'', sid), (''serial_num'', deviceSn a),
                          (''username'', username a)],
      allowSelfSigned = False\<rparr>"

definition addressText :: "api \<Rightarrow> string" where
  "addressText a = (case address a of None \<Rightarrow> ''null'' | Some s \<Rightarrow> s)"

definition bearerText :: "api \<Rightarrow> string" where
  "bearerText a = (case accessToken a of None \<Rightarrow> ''null'' | Some t \<Rightarrow> t)"

definition checkJwtRequest :: "api \<Rightarrow> request" where
  "checkJwtRequest a =
     \<lparr>reqMethod = POST,
      reqUrl = ''https://'' @ addressText a @ ''/auth/check_jwt'',
      reqHeaders = [(''Authorization'', ''Bearer '' @ bearerText a)],
      reqBody = NoBody,
      allowSelfSigned = True\<rparr>"

text \<open>
  The pattern \<^verbatim>\<open>/sessionId=(.*?);/\<close>: the leftmost position where \<^verbatim>\<open>sessionId=\<close> starts and
  is followed, with no line terminator in between, by a semicolon; the group is the text
  up to the first semicolon.
\<close>

definition isLineTerminator :: "char \<Rightarrow> bool" where
  "isLineTerminator c = (c = CHR 0x0A \<or> c = CHR 0x0D)"

fun cookieValue :: "string \<Rightarrow> string option" where
  "cookieValue [] = None"
| "cookieValue (c # cs) =
     (if c = CHR '';'' then Some []
      else if isLineTerminator c then None
      else map_option ((#) c) (cookieValue cs))"

fun matchSessionId :: "string \<Rightarrow> string option" where
  "matchSessionId [] = None"
| "matchSessionId (c # cs) =
     (if take 10 (c # cs) = ''sessionId='' then
        (case cookieValue (drop 10 (c # cs)) of
           Some v \<Rightarrow> Some v
         | None \<Rightarrow> matchSessionId cs)
      else matchSessionId cs)"

text \<open>\<^verbatim>\<open>headers.get("set-cookie")?.match(/sessionId=(.*?);/)?.[1]\<close>\<close>

definition parsedCookie :: "response \<Rightarrow> jsstring" where
  "parsedCookie r =
     (case setCookie r of
        None \<Rightarrow> JsUndefined
      | Some h \<Rightarrow> (case matchSessionId h of None \<Rightarrow> JsUndefined | Some v \<Rightarrow> JsStr v))"

definition tokenError :: error where
  "tokenError = Error ''An error occurred while retrieving an access token''"

definition getAccessToken :: "api \<Rightarrow> net \<Rightarrow> (error + unit) \<times> api \<times> net" where
  "getAccessToken a n =
     (case getEnphaseSessionId (username a) (password a) n of
        (Inl e, n1) \<Rightarrow> (Inl e, a, n1)
      | (Inr sid, n1) \<Rightarrow>
          (case fetch (tokenRequest sid a) n1 of
             (Inl e, n2) \<Rightarrow> (Inl e, a, n2)
           | (Inr tokenResponse, n2) \<Rightarrow>
               if ok tokenResponse then
                 (let a1 = a\<lparr>accessToken := Some (bodyText tokenResponse)\<rparr> in
                  case fetch (checkJwtRequest a1) n2 of
                    (Inl e, n3) \<Rightarrow> (Inl e, a1, n3)
                  | (Inr checkJwtResponse, n3) \<Rightarrow>
                      if ok checkJwtResponse then
                        (Inr (), a1\<lparr>sessionId := parsedCookie checkJwtResponse\<rparr>, n3)
                      else (Inl tokenError, a1, n3))
               else (Inl tokenError, a, n2)))"

definition dataRequest :: "string \<Rightarrow> string \<Rightarrow> api \<Rightarrow> request" where
  "dataRequest addr path a =
     \<lparr>reqMethod = GET,
      reqUrl = ''https://'' @ addr @ ''/'' @ path,
      reqHeaders =
        (case sessionId a of
           JsNull \<Rightarrow> []
         | v \<Rightarrow> [(''Cookie'', ''sessionId='' @ toString v)]),
      reqBody = NoBody,
      allowSelfSigned = True\<rparr>"

definition fetchError :: "response \<Rightarrow> api \<Rightarrow> error" where
  "fetchError r a =
     Error (''An unknown error occurred while fetching inverter data:'' @ showNat (status r)
            @ '' and bearer: '' @ bearerText a
            @ '' and sessionId: '' @ toString (sessionId a))"

function fetchApiEndpoint :: "string \<Rightarrow> bool \<Rightarrow> api \<Rightarrow> net \<Rightarrow> (error + response) \<times> api \<times> net" where
  "fetchApiEndpoint path isRetry a n =
     (case address a of
        None \<Rightarrow> (Inl (Error ''Attempted to fetch data for an uninitialised Enphase device''), a, n)
      | Some addr \<Rightarrow>
          (case fetch (dataRequest addr path a) n of
             (Inl e, n1) \<Rightarrow> (Inl e, a, n1)
           | (Inr r, n1) \<Rightarrow>
               if 400 \<le> status r \<and> status r < 500 \<and> \<not> isRetry then
                 (case getAccessToken a n1 of
                    (Inl e, a1, n2) \<Rightarrow> (Inl e, a1, n2)
                  | (Inr u, a1, n2) \<Rightarrow> fetchApiEndpoint path True a1 n2)
               else if \<not> ok r then (Inl (fetchError r a), a, n1)
               else (Inr r, a, n1)))"
  by pat_completeness auto
termination
  by (relation "measure (\<lambda>(path, isRetry, a, n). if isRetry then 0 else 1)") auto

declare fetchApiEndpoint.simps [simp del]


definition readJson :: "(error + response) \<times> api \<times> net \<Rightarrow> (error + payload) \<times> api \<times> net" where
  "readJson res =
     (case res of
        (Inl e, a1, n1) \<Rightarrow> (Inl e, a1, n1)
      | (Inr r, a1, n1) \<Rightarrow> (bodyJson r, a1, n1))"

definition getProductionData :: "api \<Rightarrow> net \<Rightarrow> (error + productionReport) \<times> api \<times> net" where
  "getProductionData a n =
     (case readJson (fetchApiEndpoint ''production.json'' False a n) of
        (Inl e, a1, n1) \<Rightarrow> (Inl e, a1, n1)
      | (Inr (ProductionJson p), a1, n1) \<Rightarrow> (Inr p, a1, n1)
      | (Inr _, a1, n1) \<Rightarrow> (Inl unexpectedShape, a1, n1))"

definition getMeters :: "api \<Rightarrow> net \<Rightarrow> (error + meter list) \<times> api \<times> net" where
  "getMeters a n =
     (case readJson (fetchApiEndpoint ''ivp/meters'' False a n) of
        (Inl e, a1, n1) \<Rightarrow> (Inl e, a1, n1)
      | (Inr (MetersJson ms), a1, n1) \<Rightarrow> (Inr ms, a1, n1)
      | (Inr _, a1, n1) \<Rightarrow> (Inl unexpectedShape, a1, n1))"

definition getMeterReadings :: "api \<Rightarrow> net \<Rightarrow> (error + meterReading list) \<times> api \<times> net" where
  "getMeterReadings a n =
     (case readJson (fetchApiEndpoint ''ivp/meters/readings'' False a n) of
        (Inl e, a1, n1) \<Rightarrow> (Inl e, a1, n1)
      | (Inr (ReadingsJson rs), a1, n1) \<Rightarrow> (Inr rs, a1, n1)
      | (Inr _, a1, n1) \<Rightarrow> (Inl unexpectedShape, a1, n1))"

section \<open>device.ts: the poll\<close>

definition NET_CONSUMPTION_METER :: string where
  "NET_CONSUMPTION_METER = ''net-consumption''"

definition PRODUCTION_METER :: string where
  "PRODUCTION_METER = ''production''"

text \<open>
  The value of \<^verbatim>\<open>isMetered\<close> is a number or a boolean: \<^verbatim>\<open>a && b\<close> is \<^verbatim>\<open>a\<close> when \<^verbatim>\<open>a\<close> is
  falsy and \<^verbatim>\<open>b\<close> otherwise.
\<close>

datatype numOrBool = JsNum nat | JsBool bool

fun truthy :: "numOrBool \<Rightarrow> bool" where
  "truthy (JsNum k) = (k \<noteq> 0)"
| "truthy (JsBool b) = b"

definition jsAnd :: "numOrBool \<Rightarrow> numOrBool \<Rightarrow> numOrBool" where
  "jsAnd x y = (if truthy x then y else x)"

definition meteringDecision :: "meter list \<Rightarrow> numOrBool" where
  "meteringDecision meterData =
     jsAnd (JsNum (length meterData))
       (JsBool (list_all (\<lambda>t. t \<in> set [NET_CONSUMPTION_METER, PRODUCTION_METER])
                  (map measurementType meterData)))"

text \<open>
  What is logged: a text, the meter list, the production report, and the two template
  strings with a number in them, \<^verbatim>\<open>Current production energy is ${n}kWh\<close> and
  \<^verbatim>\<open>Current production power is ${n}W\<close>.
\<close>

datatype logEntry =
    LogText string
  | LogMeters "meter list"
  | LogProduction productionReport
  | LogEnergy number
  | LogPower number

text \<open>
  Modelled from the spec: the host platform's \<^verbatim>\<open>setCapabilityValue(name, value)\<close>,
  \<^verbatim>\<open>setAvailable()\<close>, \<^verbatim>\<open>setUnavailable(message)\<close> and \<^verbatim>\<open>log\<close>, which the driver inherits
  (the \<^verbatim>\<open>Inverter\<close> base class and the platform are not part of the sources at hand). The
  device record holds what the platform stores: the capability values, the availability
  with its message, and the log. The four operations store what they are given and do
  not fail.
\<close>

record device =
  enphaseApi :: "api option"
  capabilities :: "string \<Rightarrow> number option"
  available :: bool
  unavailableMessage :: "string option"
  homeyLog :: "logEntry list"

definition setCapabilityValue :: "string \<Rightarrow> number \<Rightarrow> device \<Rightarrow> device" where
  "setCapabilityValue name v d = d\<lparr>capabilities := (capabilities d)(name \<mapsto> v)\<rparr>"

definition setAvailable :: "device \<Rightarrow> device" where
  "setAvailable d = d\<lparr>available := True, unavailableMessage := None\<rparr>"

definition setUnavailable :: "string \<Rightarrow> device \<Rightarrow> device" where
  "setUnavailable m d = d\<lparr>available := False, unavailableMessage := Some m\<rparr>"

definition log :: "logEntry \<Rightarrow> device \<Rightarrow> device" where
  "log e d = d\<lparr>homeyLog := homeyLog d @ [e]\<rparr>"

text \<open>
  \<^verbatim>\<open>readings.find(r => r.eid === meters.find(m => m.measurementType === T)?.eid)?.activePower || null\<close>:
  null when no meter has the type, when no reading has that meter's eid, and when the
  reading's active power is falsy.
\<close>

definition joinActivePower :: "string \<Rightarrow> meter list \<Rightarrow> meterReading list \<Rightarrow> number option" where
  "joinActivePower t meterData meterReadingsData =
     (let wanted = map_option eid (find (\<lambda>m. measurementType m = t) meterData) in
      case find (\<lambda>r. Some (readingEid r) = wanted) meterReadingsData of
        None \<Rightarrow> None
      | Some r \<Rightarrow> if falsy (activePower r) then None else Some (activePower r))"

definition joinDiagnostic :: logEntry where
  "joinDiagnostic =
     LogText ''Envoy is metered but could not fetch either net-consumption or production values from meters''"

text \<open>The body of \<^verbatim>\<open>if (isMetered) { ... }\<close>.\<close>

definition meteredBranch ::
  "meter list \<Rightarrow> api \<Rightarrow> device \<Rightarrow> net \<Rightarrow> (error + unit) \<times> api \<times> device \<times> net" where
  "meteredBranch meterData a d n =
     (case getMeterReadings a n of
        (Inl e, a1, n1) \<Rightarrow> (Inl e, a1, d, n1)
      | (Inr meterReadingsData, a1, n1) \<Rightarrow>
          (let productionPower = joinActivePower PRODUCTION_METER meterData meterReadingsData;
               gridConsumptionPower =
                 joinActivePower NET_CONSUMPTION_METER meterData meterReadingsData
           in case (productionPower, gridConsumptionPower) of
                (Some p, Some g) \<Rightarrow>
                  (let selfConsumption = jsAdd p g;
                       d1 = setCapabilityValue ''measure_power'' p d;
                       d2 = log (LogPower p) d1;
                       d3 = setCapabilityValue ''measure_power.consumption'' selfConsumption d2;
                       d4 = setCapabilityValue ''measure_power.grid'' g d3
                   in (Inr (), a1, d4, n1))
              | _ \<Rightarrow> (Inr (), a1, log joinDiagnostic d, n1)))"

text \<open>
  The body of \<^verbatim>\<open>if (!isMetered) { ... }\<close>. Reading \<^verbatim>\<open>production[0].wNow\<close> of a report with
  no production entry throws a TypeError.
\<close>

definition noEntryError :: error where
  "noEntryError =
     Error (''Cannot read properties of undefined (reading '' @ [CHR 0x27] @ ''wNow''
            @ [CHR 0x27] @ '')'')"

definition unmeteredBranch :: "productionReport \<Rightarrow> device \<Rightarrow> (error + unit) \<times> device" where
  "unmeteredBranch productionData d =
     (case production productionData of
        [] \<Rightarrow> (Inl noEntryError, d)
      | e # _ \<Rightarrow>
          (let currentPower = wNow e;
               d1 = setCapabilityValue ''measure_power'' currentPower d;
               d2 = log (LogPower currentPower) d1;
               d3 = setCapabilityValue ''measure_power.consumption'' (Fin 0) d2;
               d4 = setCapabilityValue ''measure_power.grid'' (Fin 0) d3
           in (Inr (), d4)))"

text \<open>The try block from the fetch of the production report on, for a value of \<^verbatim>\<open>isMetered\<close>.\<close>

definition pollWith ::
  "numOrBool \<Rightarrow> meter list \<Rightarrow> api \<Rightarrow> device \<Rightarrow> net \<Rightarrow> (error + unit) \<times> api \<times> device \<times> net" where
  "pollWith isMetered meterData a d n =
     (case getProductionData a n of
        (Inl e, a1, n1) \<Rightarrow> (Inl e, a1, d, n1)
      | (Inr productionData, a1, n1) \<Rightarrow>
          (let d1 = log (LogProduction productionData) d;
               currentEnergy = Fin 0;
               d2 = setCapabilityValue ''meter_power'' currentEnergy d1;
               d3 = log (LogEnergy currentEnergy) d2
           in case (if \<not> truthy isMetered then unmeteredBranch productionData d3
                    else (Inr (), d3)) of
                (Inl e, d4) \<Rightarrow> (Inl e, a1, d4, n1)
              | (Inr u, d4) \<Rightarrow>
                  (case (if truthy isMetered then meteredBranch meterData a1 d4 n1
                         else (Inr (), a1, d4, n1)) of
                     (Inl e, a2, d5, n2) \<Rightarrow> (Inl e, a2, d5, n2)
                   | (Inr u, a2, d5, n2) \<Rightarrow> (Inr (), a2, setAvailable d5, n2))))"

text \<open>The try block: the metering decision is computed and then overridden.\<close>

definition tryBlock :: "api \<Rightarrow> device \<Rightarrow> net \<Rightarrow> (error + unit) \<times> api \<times> device \<times> net" where
  "tryBlock a d n =
     (case getMeters a n of
        (Inl e, a1, n1) \<Rightarrow> (Inl e, a1, d, n1)
      | (Inr meterData, a1, n1) \<Rightarrow>
          (let d1 = log (LogMeters meterData) d;
               computed = meteringDecision meterData;
               isMetered = JsBool False
           in pollWith isMetered meterData a1 d1 n1))"

definition checkProduction :: "device \<Rightarrow> net \<Rightarrow> device \<times> net" where
  "checkProduction d n =
     (let d0 = log (LogText ''Checking production'') d in
      case enphaseApi d0 of
        None \<Rightarrow> (setUnavailable ''Enphase Envoy could not be discovered on your network'' d0, n)
      | Some a \<Rightarrow>
          (case tryBlock a d0 n of
             (Inr u, a1, d1, n1) \<Rightarrow> (d1\<lparr>enphaseApi := Some a1\<rparr>, n1)
           | (Inl err, a1, d1, n1) \<Rightarrow>
               (let errorMessage = message err;
                    d2 = log (LogText (''Unavailable: '' @ errorMessage)) d1
                in ((setUnavailable errorMessage d2)\<lparr>enphaseApi := Some a1\<rparr>, n1))))"

section \<open>Observations on a run\<close>

text \<open>The first authentication step succeeds: the cloud login returns a session id.\<close>

definition loginOk :: "api \<Rightarrow> net \<Rightarrow> bool" where
  "loginOk a n =
     (case fst (getEnphaseSessionId (username a) (password a) n) of
        Inl e \<Rightarrow> False
      | Inr sid \<Rightarrow> True)"

text \<open>The k-th request is answered, with a 2xx status.\<close>

definition answeredOk :: "net \<Rightarrow> nat \<Rightarrow> bool" where
  "answeredOk n k = (case responses n k of Failed m \<Rightarrow> False | Answered r \<Rightarrow> ok r)"

text \<open>The GET requests for a path of the gateway at an address, among the requests issued.\<close>

definition dataRequestsTo :: "string \<Rightarrow> string \<Rightarrow> request list \<Rightarrow> request list" where
  "dataRequestsTo addr path rs =
     filter (\<lambda>q. reqMethod q = GET \<and> reqUrl q = ''https://'' @ addr @ ''/'' @ path) rs"

definition deviceAfter :: "'r \<times> api \<times> device \<times> net \<Rightarrow> device" where
  "deviceAfter x = fst (snd (snd x))"

section \<open>Scenarios\<close>

text \<open>A network that gives the listed outcomes in order and is unreachable afterwards.\<close>

definition script :: "outcome list \<Rightarrow> net" where
  "script xs =
     \<lparr>responses = (\<lambda>k. if k < length xs then xs ! k else Failed ''network is unreachable''),
      sent = []\<rparr>"

definition reply :: "nat \<Rightarrow> string \<Rightarrow> error + payload \<Rightarrow> string option \<Rightarrow> outcome" where
  "reply st txt js ck = Answered \<lparr>status = st, bodyText = txt, bodyJson = js, setCookie = ck\<rparr>"

definition notJson :: "error + payload" where
  "notJson = Inl (Error ''Unexpected token in JSON'')"

definition exampleApi :: api where
  "exampleApi =
     \<lparr>address = Some ''envoy.local'', deviceSn = ''122100000000'', username = ''owner@example.org'',
      password = ''secret'', accessToken = Some ''old-token'', sessionId = JsStr ''old-cookie''\<rparr>"

definition loginReply :: outcome where
  "loginReply = reply 200 ''{}'' (Inr (LoginJson ''cloud-session'')) None"

definition tokenReply :: outcome where
  "tokenReply = reply 200 ''new-token'' notJson None"

definition cookieReply :: outcome where
  "cookieReply = reply 200 [] notJson (Some ''sessionId=fresh-cookie; Path=/; HttpOnly'')"

text \<open>The three authentication steps succeed.\<close>

definition authSucceeds :: net where
  "authSucceeds = script [loginReply, tokenReply, cookieReply]"

text \<open>The cloud steps succeed and the gateway rejects the token.\<close>

definition jwtRejected :: net where
  "jwtRejected = script [loginReply, tokenReply, reply 401 [] notJson None]"

text \<open>The gateway accepts the token and sends no cookie.\<close>

definition jwtNoCookie :: net where
  "jwtNoCookie = script [loginReply, tokenReply, reply 200 [] notJson None]"

text \<open>The gateway answers 401 to the data request and to the token check.\<close>

definition gatewayRejects :: net where
  "gatewayRejects =
     script [reply 401 [] notJson None, loginReply, tokenReply, reply 401 [] notJson None]"

text \<open>Two consecutive 401 answers to the data request, around a successful authentication.\<close>

definition persistent401 :: net where
  "persistent401 =
     script [reply 401 [] notJson None, loginReply, tokenReply, cookieReply,
             reply 401 [] notJson None]"

definition exampleDevice :: device where
  "exampleDevice =
     \<lparr>enphaseApi = Some exampleApi,
      capabilities = [''meter_power'' \<mapsto> Fin 7, ''measure_power'' \<mapsto> Fin 111,
                      ''measure_power.consumption'' \<mapsto> Fin 222,
                      ''measure_power.grid'' \<mapsto> Fin 333],
      available = False,
      unavailableMessage = Some ''offline'',
      homeyLog = []\<rparr>"

definition meteredMeters :: "meter list" where
  "meteredMeters =
     [\<lparr>eid = 1, measurementType = ''production''\<rparr>,
      \<lparr>eid = 2, measurementType = ''net-consumption''\<rparr>]"

definition metersReply :: "meter list \<Rightarrow> outcome" where
  "metersReply ms = reply 200 [] (Inr (MetersJson ms)) None"

definition productionReply :: "number \<Rightarrow> number \<Rightarrow> outcome" where
  "productionReply w wh =
     reply 200 [] (Inr (ProductionJson \<lparr>production = [\<lparr>wNow = w, wattHoursToday = wh\<rparr>]\<rparr>)) None"

definition readingsReply :: "meterReading list \<Rightarrow> outcome" where
  "readingsReply rs = reply 200 [] (Inr (ReadingsJson rs)) None"

text \<open>A poll with a valid session: the meter list, then the production report.\<close>

definition sunnyDay :: net where
  "sunnyDay = script [metersReply meteredMeters, productionReply (Fin 842) (Fin 3100)]"

definition unreachable :: net where
  "unreachable = script []"

text \<open>Meter readings while exporting 120 W of a production of 500 W.\<close>

definition exporting :: net where
  "exporting =
     script [readingsReply [\<lparr>readingEid = 1, activePower = Fin 500\<rparr>,
                            \<lparr>readingEid = 2, activePower = Fin (- 120)\<rparr>]]"

text \<open>The production report, then meter readings with no entry for the production meter.\<close>

definition productionMissing :: net where
  "productionMissing =
     script [productionReply (Fin 842) (Fin 3100), readingsReply [\<lparr>readingEid = 2, activePower = Fin (- 120)\<rparr>]]"

text \<open>Meter readings in which the production meter reports exactly 0 W.\<close>

definition idleProduction :: net where
  "idleProduction =
     script [readingsReply [\<lparr>readingEid = 1, activePower = Fin 0\<rparr>,
                            \<lparr>readingEid = 2, activePower = Fin (- 120)\<rparr>]]"

section \<open>Facts about numbers\<close>


lemma bitLength_bounds:
  "0 < n \<Longrightarrow> 2 ^ (bitLength n - 1) \<le> n \<and> n < 2 ^ bitLength n"
proof (induction n rule: bitLength.induct)
  case (1 n)
  show ?case
  proof (cases "n div 2 = 0")
    case True
    then have "n = 1" using "1.prems" by presburger
    then show ?thesis by (simp add: bitLength.simps [of "Suc 0"] bitLength.simps [of 0])
  next
    case False
    then have h: "2 ^ (bitLength (n div 2) - 1) \<le> n div 2" "n div 2 < 2 ^ bitLength (n div 2)"
      using "1.IH" "1.prems" by auto
    have pos: "0 < bitLength (n div 2)"
      using False by (simp add: bitLength.simps [of "n div 2"])
    have b: "bitLength n = Suc (bitLength (n div 2))"
      using "1.prems" by (simp add: bitLength.simps [of n])
    have "(2::nat) ^ (bitLength n - 1) = 2 * 2 ^ (bitLength (n div 2) - 1)"
      using pos b by (cases "bitLength (n div 2)") auto
    then have lo: "2 ^ (bitLength n - 1) \<le> n" using h(1) by simp
    have hi: "n < 2 ^ bitLength n" using h(2) b by simp
    show ?thesis using lo hi by simp
  qed
qed

text \<open>The exponent found is that of the leading bit.\<close>

lemma flog2_bounds:
  assumes "0 < a"
  shows "pow2 (flog2 a) \<le> a \<and> a < pow2 (flog2 a + 1)"
proof (cases "1 \<le> a")
  case True
  define k where "k = nat \<lfloor>a\<rfloor>"
  have kpos: "0 < k" using True by (simp add: k_def)
  have ka: "of_nat k \<le> a" "a < of_nat k + 1"
    using True by (simp_all add: k_def) linarith+
  from bitLength_bounds [OF kpos] have b: "2 ^ (bitLength k - 1) \<le> k" "k < 2 ^ bitLength k"
    by simp_all
  have b1: "1 \<le> bitLength k" using kpos by (simp add: bitLength.simps [of k])
  have f: "flog2 a = int (bitLength k) - 1" using True by (simp add: flog2_def k_def)
  have lo: "pow2 (flog2 a) = 2 ^ (bitLength k - 1)"
    using b1 by (simp add: f pow2_def nat_diff_distrib')
  have hi: "pow2 (flog2 a + 1) = 2 ^ bitLength k"
    by (simp add: f pow2_def)
  have "(2::rat) ^ (bitLength k - 1) \<le> of_nat k"
    using b(1) by (metis of_nat_le_iff of_nat_numeral of_nat_power)
  moreover have "(of_nat k :: rat) + 1 \<le> 2 ^ bitLength k"
  proof -
    have "Suc k \<le> 2 ^ bitLength k" using b(2) by simp
    then have "(of_nat (Suc k) :: rat) \<le> of_nat (2 ^ bitLength k)" by (simp only: of_nat_le_iff)
    then show ?thesis by simp
  qed
  ultimately show ?thesis using ka lo hi by linarith
next
  case False
  define b where "b = 1 / a"
  have bgt: "1 < b" using False assms by (simp add: b_def)
  define N where "N = - \<lfloor>- b\<rfloor>"
  have Nb: "b \<le> of_int N" "of_int N - 1 < b"
    unfolding N_def by linarith+
  define M where "M = nat (N - 1)"
  have N2: "2 \<le> N" using bgt Nb(1) by linarith
  have Mpos: "0 < M" and MN: "int M = N - 1" using N2 by (simp_all add: M_def)
  from bitLength_bounds [OF Mpos] have bl: "2 ^ (bitLength M - 1) \<le> M" "M < 2 ^ bitLength M"
    by simp_all
  have b1: "1 \<le> bitLength M" using Mpos by (simp add: bitLength.simps [of M])
  have f: "flog2 a = - int (bitLength M)"
    using False by (simp add: flog2_def M_def N_def b_def)
  have lo: "pow2 (flog2 a) = 1 / 2 ^ bitLength M"
    using b1 by (simp add: f pow2_def)
  have hi: "pow2 (flog2 a + 1) = 1 / 2 ^ (bitLength M - 1)"
  proof (cases "bitLength M = 1")
    case True
    then show ?thesis by (simp add: f pow2_def)
  next
    case False
    then have "nat (int (bitLength M) - 1) = bitLength M - 1" by simp
    then show ?thesis using b1 False by (simp add: f pow2_def)
  qed
  have r1: "(of_nat M :: rat) + 1 \<le> 2 ^ bitLength M"
  proof -
    have "Suc M \<le> 2 ^ bitLength M" using bl(2) by simp
    then have "(of_nat (Suc M) :: rat) \<le> of_nat (2 ^ bitLength M)" by (simp only: of_nat_le_iff)
    then show ?thesis by simp
  qed
  have r2: "(2::rat) ^ (bitLength M - 1) \<le> of_nat M"
    using bl(1) by (metis of_nat_le_iff of_nat_numeral of_nat_power)
  have MNr: "(of_nat M :: rat) = of_int N - 1"
    using MN by (metis of_int_1 of_int_diff of_int_of_nat_eq)
  have up: "b \<le> 2 ^ bitLength M" using r1 Nb(1) MNr by linarith
  have dn: "(2::rat) ^ (bitLength M - 1) < b" using r2 Nb(2) MNr by linarith
  have ab: "a = 1 / b" using assms by (simp add: b_def)
  have bpos: "0 < b" using bgt by linarith
  have "1 / 2 ^ bitLength M \<le> 1 / b"
    using up bpos by (simp add: frac_le)
  moreover have "1 / b < 1 / 2 ^ (bitLength M - 1)"
    using dn by (simp add: frac_less2)
  ultimately show ?thesis using lo hi ab by simp
qed

lemma roundHalfEven_int: "roundHalfEven (of_int w) = w"
  by (simp add: roundHalfEven_def)

lemma toDouble_int:
  assumes "\<bar>z\<bar> < 2 ^ 53"
  shows "toDouble (of_int z) = Fin (of_int z)"
proof (cases "z = 0")
  case True
  then show ?thesis by (simp add: toDouble_def)
next
  case False
  define k where "k = nat \<bar>z\<bar>"
  have kpos: "0 < k" and klt: "k < 2 ^ 53" and kz: "int k = \<bar>z\<bar>"
    using False assms by (auto simp: k_def nat_less_iff)
  have a: "\<bar>of_int z :: rat\<bar> = of_nat k"
    using kz by (metis of_int_abs of_int_of_nat_eq)
  from bitLength_bounds [OF kpos] have lo: "2 ^ (bitLength k - 1) \<le> k" by simp
  have bl: "bitLength k \<le> 53"
  proof (rule ccontr)
    assume "\<not> bitLength k \<le> 53"
    then have "(2::nat) ^ 53 \<le> 2 ^ (bitLength k - 1)" by (intro power_increasing) auto
    with lo klt show False by linarith
  qed
  have b1: "1 \<le> bitLength k" using kpos by (simp add: bitLength.simps [of k])
  have fl: "flog2 (of_nat k) = int (bitLength k) - 1"
    using kpos by (simp add: flog2_def)
  define j where "j = 53 - bitLength k"
  have e: "max (flog2 (of_nat k) - 52) (- 1074) = - int j"
    using bl b1 by (simp add: fl j_def)
  have p: "pow2 (- int j) = 1 / 2 ^ j"
    by (cases "j = 0") (simp_all add: pow2_def)
  have q: "(of_nat k :: rat) / pow2 (- int j) = of_int (int (k * 2 ^ j))"
    by (simp add: p)
  have m: "roundHalfEven (of_nat k / pow2 (- int j)) = int (k * 2 ^ j)"
    unfolding q by (rule roundHalfEven_int)
  have v: "of_int (int (k * 2 ^ j)) * pow2 (- int j) = (of_nat k :: rat)"
    by (simp add: p)
  have small: "\<not> (2 :: rat) ^ 1024 \<le> of_nat k"
  proof -
    have "(of_nat k :: rat) < of_nat (2 ^ 53)" using klt by (simp only: of_nat_less_iff)
    also have "\<dots> \<le> 2 ^ 1024" by simp
    finally show ?thesis by simp
  qed
  have nz: "int (k * 2 ^ j) \<noteq> 0" using kpos by simp
  have zr: "(of_int z :: rat) \<noteq> 0" using False by simp
  have sg: "(if (of_int z :: rat) < 0 then - of_nat k else of_nat k) = (of_int z :: rat)"
  proof (cases "z < 0")
    case True
    then have "z = - int k" using kz by linarith
    then have "(of_int z :: rat) = - of_nat k" by simp
    then show ?thesis using True by simp
  next
    case False
    then have "z = int k" using kz by linarith
    then have "(of_int z :: rat) = of_nat k" by simp
    then show ?thesis using False by simp
  qed
  show ?thesis
    unfolding toDouble_def Let_def
    using zr small nz sg by (simp only: a e m v if_False if_True)
qed

lemma jsAdd_int:
  "\<bar>i + j\<bar> < 2 ^ 53 \<Longrightarrow> jsAdd (Fin (of_int i)) (Fin (of_int j)) = Fin (of_int (i + j))"
  using toDouble_int [of "i + j"] by simp



lemma floor_rat_numeral:
  "\<lfloor>numeral a / numeral b :: rat\<rfloor> = numeral a div numeral b"
  by (metis floor_divide_of_int_eq of_int_numeral)

lemma floor_rat_minus_numeral:
  "\<lfloor>- (numeral a / numeral b) :: rat\<rfloor> = - numeral a div numeral b"
  by (metis divide_minus_left floor_divide_of_int_eq of_int_neg_numeral of_int_numeral)

text \<open>
  The sum of two doubles is rounded: \<open>2 ^ 53 + 1\<close> is not a double and the tie goes to the
  even neighbour \<open>2 ^ 53\<close>; a sum that is a double is exact, also for fractions.
\<close>

lemma jsAdd_rounds: "jsAdd (Fin 9007199254740992) (Fin 1) = Fin 9007199254740992"
proof -
  have a: "\<bar>9007199254740993 :: rat\<bar> = 9007199254740993" by simp
  have b: "bitLength 9007199254740993 = 54" by (simp add: bitLength.simps)
  have f: "flog2 9007199254740993 = 53" by (simp add: flog2_def b)
  have e: "max (flog2 9007199254740993 - 52) (- 1074) = 1" by (simp add: f)
  have p: "pow2 1 = 2" by (simp add: pow2_def)
  have m: "roundHalfEven (9007199254740993 / pow2 1) = 4503599627370496"
    by (simp add: p roundHalfEven_def floor_rat_numeral)
  have v: "of_int 4503599627370496 * pow2 1 = (9007199254740992 :: rat)" by (simp add: p)
  have s: "\<not> (2 :: rat) ^ 1024 \<le> 9007199254740992" by simp
  have "toDouble 9007199254740993 = Fin 9007199254740992"
    unfolding toDouble_def Let_def a e m v using s by simp
  then show ?thesis by simp
qed

lemma jsAdd_fraction: "jsAdd (Fin (1 / 2)) (Fin (1 / 4)) = Fin (3 / 4)"
proof -
  have a: "\<bar>3 / 4 :: rat\<bar> = 3 / 4" by simp
  have f: "flog2 (3 / 4) = - 1"
    by (simp add: flog2_def floor_rat_minus_numeral bitLength.simps)
  have e: "max (flog2 (3 / 4) - 52) (- 1074) = - 53" by (simp add: f)
  have p: "pow2 (- 53) = 1 / 2 ^ 53" by (simp add: pow2_def)
  have m: "roundHalfEven (3 / 4 / pow2 (- 53)) = 6755399441055744"
    by (simp add: p roundHalfEven_def floor_rat_numeral)
  have v: "of_int 6755399441055744 * pow2 (- 53) = (3 / 4 :: rat)" by (simp add: p)
  have s: "\<not> (2 :: rat) ^ 1024 \<le> 3 / 4" by simp
  have "toDouble (3 / 4) = Fin (3 / 4)"
    unfolding toDouble_def Let_def a e m v using s by simp
  then show ?thesis by simp
qed

section \<open>Facts about the session client\<close>

lemma fetch_eq: "fetch req n = (case responses n (length (sent n)) of Failed m \<Rightarrow> Inl (Error m) | Answered r \<Rightarrow> Inr r, n\<lparr>sent := sent n @ [req]\<rparr>)"
  by (simp add: fetch_def)

lemma getEnphaseSessionId_net:
  "snd (getEnphaseSessionId u p n) = n\<lparr>sent := sent n @ [loginRequest u p]\<rparr>"
  by (simp add: getEnphaseSessionId_def fetch_def split: outcome.splits sum.splits payload.splits)

lemma getAccessToken_cases:
  "getAccessToken a n =
     (let k = length (sent n);
          n1 = n\<lparr>sent := sent n @ [loginRequest (username a) (password a)]\<rparr> in
      case fst (getEnphaseSessionId (username a) (password a) n) of
        Inl e \<Rightarrow> (Inl e, a, n1)
      | Inr sid \<Rightarrow>
          (let n2 = n1\<lparr>sent := sent n1 @ [tokenRequest sid a]\<rparr> in
           case responses n (Suc k) of
             Failed m \<Rightarrow> (Inl (Error m), a, n2)
           | Answered r2 \<Rightarrow>
               if \<not> ok r2 then (Inl tokenError, a, n2)
               else
                 (let a1 = a\<lparr>accessToken := Some (bodyText r2)\<rparr>;
                      n3 = n2\<lparr>sent := sent n2 @ [checkJwtRequest a1]\<rparr> in
                  case responses n (Suc (Suc k)) of
                    Failed m \<Rightarrow> (Inl (Error m), a1, n3)
                  | Answered r3 \<Rightarrow>
                      if ok r3 then (Inr (), a1\<lparr>sessionId := parsedCookie r3\<rparr>, n3)
                      else (Inl tokenError, a1, n3))))"
proof -
  obtain r n1 where g: "getEnphaseSessionId (username a) (password a) n = (r, n1)"
    by (cases "getEnphaseSessionId (username a) (password a) n")
  have n1: "n1 = n\<lparr>sent := sent n @ [loginRequest (username a) (password a)]\<rparr>"
    using getEnphaseSessionId_net [of "username a" "password a" n] g by simp
  show ?thesis
    unfolding getAccessToken_def g
    by (simp add: n1 fetch_eq Let_def split: sum.splits outcome.splits)
qed

lemma getAccessToken_net:
  "getAccessToken a n = (res, a', n') \<Longrightarrow>
     responses n' = responses n \<and> address a' = address a \<and>
     (\<exists>new. sent n' = sent n @ loginRequest (username a) (password a) # new
        \<and> (\<forall>q\<in>set new. reqMethod q = POST \<and> q \<noteq> loginRequest (username a) (password a))
        \<and> length new \<le> 2 \<and> (res = Inr () \<longrightarrow> length new = 2))"
  unfolding getAccessToken_cases Let_def
  by (auto split: sum.splits outcome.splits if_splits
      simp: tokenRequest_def checkJwtRequest_def loginRequest_def)

lemma fetchApiEndpoint_retry:
  "fetchApiEndpoint path True a n =
     (case address a of
        None \<Rightarrow> (Inl (Error ''Attempted to fetch data for an uninitialised Enphase device''), a, n)
      | Some addr \<Rightarrow>
          (case fetch (dataRequest addr path a) n of
             (Inl e, n1) \<Rightarrow> (Inl e, a, n1)
           | (Inr r, n1) \<Rightarrow>
               if \<not> ok r then (Inl (fetchError r a), a, n1)
               else (Inr r, a, n1)))"
  by (subst fetchApiEndpoint.simps) (simp split: option.splits prod.splits sum.splits)

lemma fetchApiEndpoint_first:
  "fetchApiEndpoint path False a n =
     (case address a of
        None \<Rightarrow> (Inl (Error ''Attempted to fetch data for an uninitialised Enphase device''), a, n)
      | Some addr \<Rightarrow>
          (case fetch (dataRequest addr path a) n of
             (Inl e, n1) \<Rightarrow> (Inl e, a, n1)
           | (Inr r, n1) \<Rightarrow>
               if 400 \<le> status r \<and> status r < 500 then
                 (case getAccessToken a n1 of
                    (Inl e, a1, n2) \<Rightarrow> (Inl e, a1, n2)
                  | (Inr u, a1, n2) \<Rightarrow> fetchApiEndpoint path True a1 n2)
               else if \<not> ok r then (Inl (fetchError r a), a, n1)
               else (Inr r, a, n1)))"
  by (subst fetchApiEndpoint.simps) (simp split: option.splits prod.splits sum.splits)

lemma fetchApiEndpoint_net:
  assumes "fetchApiEndpoint path b a n = (res, a', n')"
  shows "responses n' = responses n \<and> address a' = address a
       \<and> (\<exists>new. sent n' = sent n @ new
            \<and> (\<forall>q\<in>set new. reqMethod q = POST
                  \<or> (\<exists>addr. reqUrl q = ''https://'' @ addr @ ''/'' @ path)))"
proof (cases b)
  case True
  then show ?thesis using assms
    by (auto simp: fetchApiEndpoint_retry fetch_eq dataRequest_def
        split: option.splits outcome.splits if_splits)
next
  case False
  show ?thesis
  proof (cases "address a")
    case None
    then show ?thesis using assms False by (simp add: fetchApiEndpoint_first)
  next
    case (Some addr)
    let ?n1 = "n\<lparr>sent := sent n @ [dataRequest addr path a]\<rparr>"
    obtain ra a1 n2 where g: "getAccessToken a ?n1 = (ra, a1, n2)"
      by (cases "getAccessToken a ?n1") auto
    from getAccessToken_net [OF g] obtain new where
      g1: "responses n2 = responses n" "address a1 = Some addr"
      "sent n2 = sent n @ dataRequest addr path a # loginRequest (username a) (password a) # new"
      "\<forall>q\<in>set new. reqMethod q = POST"
      using Some by auto
    have lp: "reqMethod (loginRequest u p) = POST" for u p by (simp add: loginRequest_def)
    have du: "reqUrl (dataRequest addr path x) = ''https://'' @ addr @ ''/'' @ path" for x
      by (simp add: dataRequest_def)
    show ?thesis
    proof (cases "responses n (length (sent n))")
      case (Failed m)
      then show ?thesis using assms False Some du
        by (auto simp: fetchApiEndpoint_first fetch_eq)
    next
      case (Answered r)
      show ?thesis
      proof (cases "400 \<le> status r \<and> status r < 500")
        case no: False
        then show ?thesis using assms False Some du Answered
          by (auto simp: fetchApiEndpoint_first fetch_eq split: if_splits)
      next
        case yes: True
        show ?thesis
        proof (cases ra)
          case (Inl e)
          then have "n' = n2" "a' = a1" using assms False Some Answered yes g
            by (auto simp: fetchApiEndpoint_first fetch_eq)
          then show ?thesis using g1 Some lp du by auto
        next
          case (Inr u)
          then have run: "fetchApiEndpoint path True a1 n2 = (res, a', n')"
            using assms False Some Answered yes g
            by (auto simp: fetchApiEndpoint_first fetch_eq)
          with g1(2) have "responses n' = responses n2" "address a' = address a1"
            "sent n' = sent n2 @ [dataRequest addr path a1]"
            by (auto simp: fetchApiEndpoint_retry fetch_eq split: outcome.splits if_splits)
          then show ?thesis using g1 Some lp du by auto
        qed
      qed
    qed
  qed
qed

text \<open>
  What the model of the pattern returns is a value the pattern can match: it stands
  between \<^verbatim>\<open>sessionId=\<close> and a semicolon and holds neither a semicolon nor a line
  terminator.
\<close>

lemma cookieValue_Some:
  "cookieValue s = Some v \<Longrightarrow>
     \<exists>post. s = v @ '';'' @ post \<and> (\<forall>c\<in>set v. c \<noteq> CHR '';'' \<and> \<not> isLineTerminator c)"
proof (induction s arbitrary: v)
  case Nil
  then show ?case by simp
next
  case (Cons c cs)
  show ?case
  proof (cases "c = CHR '';''")
    case True
    then show ?thesis using Cons.prems by auto
  next
    case False
    then obtain w where w: "cookieValue cs = Some w" "v = c # w" "\<not> isLineTerminator c"
      using Cons.prems by (auto split: if_splits)
    from Cons.IH [OF w(1)] obtain post where
      "cs = w @ '';'' @ post" "\<forall>c\<in>set w. c \<noteq> CHR '';'' \<and> \<not> isLineTerminator c"
      by blast
    then show ?thesis using w False by auto
  qed
qed

lemma matchSessionId_Some:
  "matchSessionId h = Some v \<Longrightarrow>
     \<exists>pre post. h = pre @ ''sessionId='' @ v @ '';'' @ post
        \<and> (\<forall>c\<in>set v. c \<noteq> CHR '';'' \<and> \<not> isLineTerminator c)"
proof (induction h)
  case Nil
  then show ?case by simp
next
  case (Cons c cs)
  show ?case
  proof (cases "take 10 (c # cs) = ''sessionId='' \<and> cookieValue (drop 10 (c # cs)) = Some v")
    case True
    from cookieValue_Some [of "drop 10 (c # cs)" v] True obtain post where
      p: "drop 10 (c # cs) = v @ '';'' @ post" "\<forall>c\<in>set v. c \<noteq> CHR '';'' \<and> \<not> isLineTerminator c"
      by blast
    from True have t: "take 10 (c # cs) = ''sessionId=''" by blast
    have "c # cs = take 10 (c # cs) @ drop 10 (c # cs)"
      by (rule append_take_drop_id [symmetric])
    also have "\<dots> = ''sessionId='' @ v @ '';'' @ post" by (simp only: t p(1))
    finally have "c # cs = [] @ ''sessionId='' @ v @ '';'' @ post" by (simp only: append_Nil)
    then show ?thesis using p(2) by blast
  next
    case False
    then have "matchSessionId cs = Some v" using Cons.prems
      by (auto split: if_splits option.splits)
    from Cons.IH [OF this] obtain pre post where
      "cs = pre @ ''sessionId='' @ v @ '';'' @ post" "\<forall>c\<in>set v. c \<noteq> CHR '';'' \<and> \<not> isLineTerminator c"
      by blast
    then have "c # cs = (c # pre) @ ''sessionId='' @ v @ '';'' @ post" by simp
    then show ?thesis using \<open>\<forall>c\<in>set v. c \<noteq> CHR '';'' \<and> \<not> isLineTerminator c\<close> by blast
  qed
qed

section \<open>Facts about the poll\<close>

lemma url_distinct:
  "''https://'' @ a1 @ ''/'' @ ''ivp/meters'' \<noteq> ''https://'' @ a2 @ ''/'' @ ''ivp/meters/readings''"
  "''https://'' @ a1 @ ''/'' @ ''production.json'' \<noteq> ''https://'' @ a2 @ ''/'' @ ''ivp/meters/readings''"
  by (auto dest: arg_cong [where f = rev])

lemma getMeters_net:
  assumes "getMeters a n = (res, a', n')"
  shows "responses n' = responses n \<and> address a' = address a
       \<and> dataRequestsTo addr ''ivp/meters/readings'' (sent n') = dataRequestsTo addr ''ivp/meters/readings'' (sent n)"
proof -
  obtain r0 where f: "fetchApiEndpoint ''ivp/meters'' False a n = (r0, a', n')"
    using assms
    by (cases "fetchApiEndpoint ''ivp/meters'' False a n")
      (auto simp: getMeters_def readJson_def split: prod.splits sum.splits payload.splits)
  from fetchApiEndpoint_net [OF f] obtain new where
    new: "responses n' = responses n" "address a' = address a" "sent n' = sent n @ new"
      "\<forall>q\<in>set new. reqMethod q = POST \<or> (\<exists>x. reqUrl q = ''https://'' @ x @ ''/'' @ ''ivp/meters'')"
    by blast
  have "\<forall>q\<in>set new. \<not> (reqMethod q = GET \<and> reqUrl q = ''https://'' @ addr @ ''/'' @ ''ivp/meters/readings'')"
    using new(4) by (metis url_distinct(1) httpMethod.distinct(1))
  then show ?thesis using new(1-3)
    by (simp add: dataRequestsTo_def filter_empty_conv)
qed

lemma getProductionData_net:
  assumes "getProductionData a n = (res, a', n')"
  shows "responses n' = responses n \<and> address a' = address a
       \<and> dataRequestsTo addr ''ivp/meters/readings'' (sent n') = dataRequestsTo addr ''ivp/meters/readings'' (sent n)"
proof -
  obtain r0 where f: "fetchApiEndpoint ''production.json'' False a n = (r0, a', n')"
    using assms
    by (cases "fetchApiEndpoint ''production.json'' False a n")
      (auto simp: getProductionData_def readJson_def split: prod.splits sum.splits payload.splits)
  from fetchApiEndpoint_net [OF f] obtain new where
    new: "responses n' = responses n" "address a' = address a" "sent n' = sent n @ new"
      "\<forall>q\<in>set new. reqMethod q = POST \<or> (\<exists>x. reqUrl q = ''https://'' @ x @ ''/'' @ ''production.json'')"
    by blast
  have "\<forall>q\<in>set new. \<not> (reqMethod q = GET \<and> reqUrl q = ''https://'' @ addr @ ''/'' @ ''ivp/meters/readings'')"
    using new(4) by (metis url_distinct(2) httpMethod.distinct(1))
  then show ?thesis using new(1-3)
    by (simp add: dataRequestsTo_def filter_empty_conv)
qed

lemma pollWith_unmetered:
  "pollWith (JsBool False) ms a d n =
     (case getProductionData a n of
        (Inl e, a1, n1) \<Rightarrow> (Inl e, a1, d, n1)
      | (Inr productionData, a1, n1) \<Rightarrow>
          (case unmeteredBranch productionData
                  (log (LogEnergy (Fin 0))
                    (setCapabilityValue ''meter_power'' (Fin 0) (log (LogProduction productionData) d))) of
             (Inl e, d4) \<Rightarrow> (Inl e, a1, d4, n1)
           | (Inr u, d4) \<Rightarrow> (Inr (), a1, setAvailable d4, n1)))"
  by (simp add: pollWith_def Let_def split: prod.splits sum.splits)

lemma tryBlock_eq:
  "tryBlock a d n =
     (case getMeters a n of
        (Inl e, a1, n1) \<Rightarrow> (Inl e, a1, d, n1)
      | (Inr meterData, a1, n1) \<Rightarrow> pollWith (JsBool False) meterData a1 (log (LogMeters meterData) d) n1)"
  by (simp add: tryBlock_def Let_def split: prod.splits sum.splits)

lemma tryBlock_success:
  assumes "tryBlock a d n = (Inr u, a', d', n')"
  shows "\<exists>ms a1 n1 rep e es.
           getMeters a n = (Inr ms, a1, n1) \<and> getProductionData a1 n1 = (Inr rep, a', n')
         \<and> production rep = e # es
         \<and> d' = setAvailable (setCapabilityValue ''measure_power.grid'' (Fin 0)
                 (setCapabilityValue ''measure_power.consumption'' (Fin 0)
                   (log (LogPower (wNow e))
                     (setCapabilityValue ''measure_power'' (wNow e)
                       (log (LogEnergy (Fin 0))
                         (setCapabilityValue ''meter_power'' (Fin 0)
                           (log (LogProduction rep) (log (LogMeters ms) d))))))))"
  using assms unfolding tryBlock_eq pollWith_unmetered unmeteredBranch_def Let_def
  by (auto split: prod.splits sum.splits list.splits)

lemma tryBlock_net:
  assumes "tryBlock a d n = (res, a', d', n')"
  shows "dataRequestsTo addr ''ivp/meters/readings'' (sent n') = dataRequestsTo addr ''ivp/meters/readings'' (sent n)"
proof (cases "getMeters a n")
  case (fields rm a1 n1)
  note m = getMeters_net [OF fields, of addr]
  show ?thesis
  proof (cases rm)
    case (Inl e)
    then show ?thesis using assms fields m by (simp add: tryBlock_eq)
  next
    case (Inr ms)
    obtain rp a2 n2 where p: "getProductionData a1 n1 = (rp, a2, n2)"
      by (cases "getProductionData a1 n1") auto
    have "n' = n2" using assms fields Inr p
      by (auto simp: tryBlock_eq pollWith_unmetered split: sum.splits prod.splits)
    then show ?thesis using m getProductionData_net [OF p, of addr] by simp
  qed
qed

lemma checkProduction_cases:
  "checkProduction d n =
     (case enphaseApi d of
        None \<Rightarrow> (setUnavailable ''Enphase Envoy could not be discovered on your network''
                   (log (LogText ''Checking production'') d), n)
      | Some a \<Rightarrow>
          (case tryBlock a (log (LogText ''Checking production'') d) n of
             (Inr u, a1, d1, n1) \<Rightarrow> (d1\<lparr>enphaseApi := Some a1\<rparr>, n1)
           | (Inl err, a1, d1, n1) \<Rightarrow>
               ((setUnavailable (message err) (log (LogText (''Unavailable: '' @ message err)) d1))
                  \<lparr>enphaseApi := Some a1\<rparr>, n1)))"
  by (simp add: checkProduction_def Let_def log_def split: option.splits prod.splits sum.splits)

section \<open>Runs of the scenarios\<close>

lemmas scenario_defs = script_def reply_def metersReply_def productionReply_def readingsReply_def
  exampleApi_def exampleDevice_def meteredMeters_def ok_def

lemmas run_defs = fetchApiEndpoint_first fetch_eq readJson_def getMeters_def getProductionData_def
  getMeterReadings_def dataRequest_def

lemmas device_defs = setCapabilityValue_def setAvailable_def setUnavailable_def log_def


lemma jwtRejected_run:
  "getAccessToken exampleApi jwtRejected =
     (Inl tokenError, exampleApi\<lparr>accessToken := Some ''new-token''\<rparr>,
      jwtRejected\<lparr>sent := [loginRequest ''owner@example.org'' ''secret'',
                             tokenRequest ''cloud-session'' exampleApi,
                             checkJwtRequest (exampleApi\<lparr>accessToken := Some ''new-token''\<rparr>)]\<rparr>)"
  by (simp add: getAccessToken_cases getEnphaseSessionId_def fetch_eq jwtRejected_def script_def
      loginReply_def tokenReply_def reply_def ok_def exampleApi_def Let_def)

lemma jwtNoCookie_run:
  "getAccessToken exampleApi jwtNoCookie =
     (Inr (), exampleApi\<lparr>accessToken := Some ''new-token'', sessionId := JsUndefined\<rparr>,
      jwtNoCookie\<lparr>sent := [loginRequest ''owner@example.org'' ''secret'',
                             tokenRequest ''cloud-session'' exampleApi,
                             checkJwtRequest (exampleApi\<lparr>accessToken := Some ''new-token''\<rparr>)]\<rparr>)"
  by (simp add: getAccessToken_cases getEnphaseSessionId_def fetch_eq jwtNoCookie_def script_def
      loginReply_def tokenReply_def reply_def ok_def exampleApi_def Let_def parsedCookie_def)

lemma authSucceeds_run:
  "getAccessToken exampleApi authSucceeds =
     (Inr (), exampleApi\<lparr>accessToken := Some ''new-token'', sessionId := JsStr ''fresh-cookie''\<rparr>,
      authSucceeds\<lparr>sent := [loginRequest ''owner@example.org'' ''secret'',
                             tokenRequest ''cloud-session'' exampleApi,
                             checkJwtRequest (exampleApi\<lparr>accessToken := Some ''new-token''\<rparr>)]\<rparr>)"
  by (simp add: getAccessToken_cases getEnphaseSessionId_def fetch_eq authSucceeds_def script_def
      loginReply_def tokenReply_def cookieReply_def reply_def ok_def exampleApi_def Let_def
      parsedCookie_def isLineTerminator_def)

lemma gatewayRejects_run:
  "fetchApiEndpoint ''production.json'' False exampleApi gatewayRejects =
     (Inl tokenError, exampleApi\<lparr>accessToken := Some ''new-token''\<rparr>,
      gatewayRejects\<lparr>sent := [dataRequest ''envoy.local'' ''production.json'' exampleApi,
                             loginRequest ''owner@example.org'' ''secret'',
                             tokenRequest ''cloud-session'' exampleApi,
                             checkJwtRequest (exampleApi\<lparr>accessToken := Some ''new-token''\<rparr>)]\<rparr>)"
  by (simp add: fetchApiEndpoint_first getAccessToken_cases getEnphaseSessionId_def fetch_eq gatewayRejects_def script_def
      loginReply_def tokenReply_def reply_def ok_def exampleApi_def Let_def)

lemma persistent401_auth:
  "getAccessToken exampleApi
      (persistent401\<lparr>sent := sent persistent401
                      @ [dataRequest ''envoy.local'' ''production.json'' exampleApi]\<rparr>) =
     (Inr (), exampleApi\<lparr>accessToken := Some ''new-token'', sessionId := JsStr ''fresh-cookie''\<rparr>,
      persistent401\<lparr>sent := [dataRequest ''envoy.local'' ''production.json'' exampleApi,
                             loginRequest ''owner@example.org'' ''secret'',
                             tokenRequest ''cloud-session'' exampleApi,
                             checkJwtRequest (exampleApi\<lparr>accessToken := Some ''new-token''\<rparr>)]\<rparr>)"
  by (simp add: getAccessToken_cases getEnphaseSessionId_def fetch_eq persistent401_def script_def
      loginReply_def tokenReply_def cookieReply_def reply_def ok_def exampleApi_def Let_def
      parsedCookie_def isLineTerminator_def)

lemma sunnyDay_run:
  "available (fst (checkProduction exampleDevice sunnyDay))
   \<and> capabilities (fst (checkProduction exampleDevice sunnyDay)) ''measure_power'' = Some (Fin 842)
   \<and> capabilities (fst (checkProduction exampleDevice sunnyDay)) ''meter_power'' = Some (Fin 0)
   \<and> length (sent (snd (checkProduction exampleDevice sunnyDay))) = 2"
  by (simp add: checkProduction_cases tryBlock_eq pollWith_unmetered unmeteredBranch_def
      run_defs scenario_defs device_defs sunnyDay_def Let_def)

lemma unreachable_run:
  "getMeters exampleApi unreachable
     = (Inl (Error ''network is unreachable''), exampleApi,
        unreachable\<lparr>sent := [dataRequest ''envoy.local'' ''ivp/meters'' exampleApi]\<rparr>)"
  by (simp add: run_defs scenario_defs unreachable_def)

lemma exporting_run:
  "getMeterReadings exampleApi exporting
     = (Inr [\<lparr>readingEid = 1, activePower = Fin 500\<rparr>, \<lparr>readingEid = 2, activePower = Fin (- 120)\<rparr>],
        exampleApi,
        exporting\<lparr>sent := [dataRequest ''envoy.local'' ''ivp/meters/readings'' exampleApi]\<rparr>)"
  by (simp add: run_defs scenario_defs exporting_def)

lemma productionMissing_run:
  "getProductionData exampleApi productionMissing
     = (Inr \<lparr>production = [\<lparr>wNow = Fin 842, wattHoursToday = Fin 3100\<rparr>]\<rparr>, exampleApi,
        productionMissing\<lparr>sent := [dataRequest ''envoy.local'' ''production.json'' exampleApi]\<rparr>)"
  "getMeterReadings exampleApi
       (productionMissing\<lparr>sent := [dataRequest ''envoy.local'' ''production.json'' exampleApi]\<rparr>)
     = (Inr [\<lparr>readingEid = 2, activePower = Fin (- 120)\<rparr>], exampleApi,
        productionMissing\<lparr>sent := [dataRequest ''envoy.local'' ''production.json'' exampleApi,
                                    dataRequest ''envoy.local'' ''ivp/meters/readings'' exampleApi]\<rparr>)"
  by (simp_all add: run_defs scenario_defs productionMissing_def)

lemma idleProduction_run:
  "getMeterReadings exampleApi idleProduction
     = (Inr [\<lparr>readingEid = 1, activePower = Fin 0\<rparr>, \<lparr>readingEid = 2, activePower = Fin (- 120)\<rparr>],
        exampleApi,
        idleProduction\<lparr>sent := [dataRequest ''envoy.local'' ''ivp/meters/readings'' exampleApi]\<rparr>)"
  by (simp add: run_defs scenario_defs idleProduction_def)

section \<open>The claims\<close>

subsection \<open>Replacing the stored secrets\<close>

text \<open>
  Claim C1, as the code has it. A run of \<^verbatim>\<open>getAccessToken\<close> succeeds exactly when the cloud
  login, the token exchange and the gateway's token check all succeed. The session cookie
  is replaced only then: a failing run leaves \<^verbatim>\<open>sessionId\<close> as it was. The bearer token is
  replaced as soon as login and token exchange have succeeded, before the token check:
  when one of the first two steps fails \<^verbatim>\<open>accessToken\<close> is as before, and when both
  succeed it is the body of the token response, whatever the third step does.
\<close>

theorem getAccessToken_secrets:
  assumes "getAccessToken a n = (res, a', n')"
  shows "(res = Inr () \<longleftrightarrow>
            loginOk a n \<and> answeredOk n (Suc (length (sent n)))
            \<and> answeredOk n (Suc (Suc (length (sent n)))))
       \<and> (res \<noteq> Inr () \<longrightarrow> sessionId a' = sessionId a)
       \<and> (\<not> (loginOk a n \<and> answeredOk n (Suc (length (sent n)))) \<longrightarrow> accessToken a' = accessToken a)
       \<and> (\<forall>r2. loginOk a n \<and> responses n (Suc (length (sent n))) = Answered r2 \<and> ok r2 \<longrightarrow>
              accessToken a' = Some (bodyText r2))"
  using assms unfolding getAccessToken_cases loginOk_def answeredOk_def Let_def
  by (auto split: sum.splits outcome.splits if_splits simp: tokenError_def)

text \<open>
  Claim C1, witness: with all three steps succeeding both secrets are the new ones.
\<close>

theorem getAccessToken_secrets_witness:
  "loginOk exampleApi authSucceeds \<and> answeredOk authSucceeds 1 \<and> answeredOk authSucceeds 2
   \<and> accessToken (fst (snd (getAccessToken exampleApi authSucceeds))) = Some ''new-token''
   \<and> sessionId (fst (snd (getAccessToken exampleApi authSucceeds))) = JsStr ''fresh-cookie''"
proof -
  have s: "sent authSucceeds = []" by (simp add: authSucceeds_def script_def)
  from getAccessToken_secrets [OF authSucceeds_run] show ?thesis
    by (simp add: s authSucceeds_run numeral_2_eq_2)
qed

text \<open>
  Claim C1 as stated fails: when the gateway rejects the new token, the run fails and the
  stored bearer token is already the new one.
\<close>

theorem getAccessToken_secrets_counterexample:
  "fst (getAccessToken exampleApi jwtRejected) \<noteq> Inr ()
   \<and> accessToken (fst (snd (getAccessToken exampleApi jwtRejected))) = Some ''new-token''
   \<and> accessToken exampleApi = Some ''old-token''"
  by (simp add: jwtRejected_run tokenError_def) (simp add: exampleApi_def)

subsection \<open>The token check of the gateway\<close>

text \<open>
  Claim C7, as the code has it. In the third authentication step, a rejection by the
  gateway makes \<^verbatim>\<open>getAccessToken\<close> throw its token error. An accepting answer makes it
  succeed with \<^verbatim>\<open>sessionId\<close> set to what the pattern finds in the \<^verbatim>\<open>set-cookie\<close> header; when
  the header is absent or does not match, that is \<^verbatim>\<open>undefined\<close>, and nothing is thrown.
\<close>

theorem checkJwt_step:
  assumes "loginOk a n"
      and "answeredOk n (Suc (length (sent n)))"
      and "responses n (Suc (Suc (length (sent n)))) = Answered r3"
  shows "(\<not> ok r3 \<longrightarrow> fst (getAccessToken a n) = Inl tokenError)
       \<and> (ok r3 \<longrightarrow> fst (getAccessToken a n) = Inr ()
                   \<and> sessionId (fst (snd (getAccessToken a n))) = parsedCookie r3)
       \<and> (setCookie r3 = None \<longrightarrow> parsedCookie r3 = JsUndefined)
       \<and> (\<forall>h. setCookie r3 = Some h \<and> matchSessionId h = None \<longrightarrow> parsedCookie r3 = JsUndefined)"
  using assms unfolding getAccessToken_cases loginOk_def answeredOk_def Let_def
  by (auto split: sum.splits outcome.splits if_splits simp: parsedCookie_def)

text \<open>Claim C7, witness: the gateway rejects the token.\<close>

theorem checkJwt_step_witness:
  "fst (getAccessToken exampleApi jwtRejected) = Inl tokenError
   \<and> message tokenError = ''An error occurred while retrieving an access token''"
proof -
  have s: "sent jwtRejected = []" by (simp add: jwtRejected_def script_def)
  have l: "loginOk exampleApi jwtRejected"
    by (simp add: loginOk_def getEnphaseSessionId_def fetch_eq jwtRejected_def script_def
        loginReply_def reply_def ok_def)
  have t: "answeredOk jwtRejected (Suc (length (sent jwtRejected)))"
    by (simp add: answeredOk_def jwtRejected_def script_def tokenReply_def reply_def ok_def)
  have j: "responses jwtRejected (Suc (Suc (length (sent jwtRejected))))
             = Answered \<lparr>status = 401, bodyText = [], bodyJson = notJson, setCookie = None\<rparr>"
    by (simp add: jwtRejected_def script_def reply_def)
  from checkJwt_step [OF l t j] show ?thesis
    by (simp add: ok_def tokenError_def)
qed

text \<open>
  Claim C7 as stated fails: the gateway accepts the token and sends no cookie, and the
  run succeeds with \<^verbatim>\<open>sessionId\<close> undefined.
\<close>

theorem checkJwt_step_counterexample:
  "responses jwtNoCookie 2 = reply 200 [] notJson None
   \<and> fst (getAccessToken exampleApi jwtNoCookie) = Inr ()
   \<and> sessionId (fst (snd (getAccessToken exampleApi jwtNoCookie))) = JsUndefined"
  by (simp add: jwtNoCookie_run) (simp add: jwtNoCookie_def script_def)

subsection \<open>Re-authentication and retry\<close>

text \<open>
  Claim C2, as the code has it. When the first answer to a data request has a status from
  400 to 499, \<^verbatim>\<open>fetchApiEndpoint\<close> runs \<^verbatim>\<open>getAccessToken\<close> once (one login request is issued).
  When that re-authentication fails, its error is thrown and the data request is not
  repeated. When it succeeds, the data request is repeated exactly once (five requests in
  all), and the call returns the second answer when its status is 2xx and throws
  otherwise, with no further request.
\<close>

theorem fetchApiEndpoint_reauth:
  assumes "address a = Some addr"
      and "responses n (length (sent n)) = Answered r"
      and "400 \<le> status r" and "status r < 500"
      and "fetchApiEndpoint path False a n = (res, a', n')"
  shows "count_list (drop (length (sent n)) (sent n')) (loginRequest (username a) (password a)) = 1
       \<and> (case getAccessToken a (n\<lparr>sent := sent n @ [dataRequest addr path a]\<rparr>) of
            (Inl e, a1, n2) \<Rightarrow>
              res = Inl e \<and> length (dataRequestsTo addr path (drop (length (sent n)) (sent n'))) = 1
          | (Inr u, a1, n2) \<Rightarrow>
              length (dataRequestsTo addr path (drop (length (sent n)) (sent n'))) = 2
              \<and> length (sent n') = length (sent n) + 5
              \<and> (case responses n (length (sent n) + 4) of
                    Failed m \<Rightarrow> res = Inl (Error m)
                  | Answered r' \<Rightarrow> if ok r' then res = Inr r' else res = Inl (fetchError r' a1)))"
proof -
  let ?n1 = "n\<lparr>sent := sent n @ [dataRequest addr path a]\<rparr>"
  let ?login = "loginRequest (username a) (password a)"
  obtain ra a1 n2 where g: "getAccessToken a ?n1 = (ra, a1, n2)"
    by (cases "getAccessToken a ?n1") auto
  from getAccessToken_net [OF g] obtain new where
    resp: "responses n2 = responses n" and addr: "address a1 = Some addr" and
    sent: "sent n2 = sent n @ dataRequest addr path a # ?login # new" and
    new: "\<forall>q\<in>set new. reqMethod q = POST \<and> q \<noteq> ?login" and
    len: "length new \<le> 2" "ra = Inr () \<longrightarrow> length new = 2"
    using assms(1) by auto
  have cnt: "count_list new ?login = 0" using new by (auto simp: count_list_0_iff)
  have flt: "dataRequestsTo addr path new = []"
    using new by (auto simp: dataRequestsTo_def filter_empty_conv)
  have nl: "dataRequest addr path x \<noteq> ?login" for x
    by (simp add: dataRequest_def loginRequest_def)
  have dr: "dataRequestsTo addr path [dataRequest addr path x] = [dataRequest addr path x]" for x
    by (simp add: dataRequestsTo_def dataRequest_def)
  have lg: "dataRequestsTo addr path (?login # xs) = dataRequestsTo addr path xs" for xs
    by (simp add: dataRequestsTo_def loginRequest_def)
  have ap: "dataRequestsTo addr path (xs @ ys) = dataRequestsTo addr path xs @ dataRequestsTo addr path ys" for xs ys
    by (simp add: dataRequestsTo_def)
  have first: "fetchApiEndpoint path False a n =
      (case ra of Inl e \<Rightarrow> (Inl e, a1, n2) | Inr u \<Rightarrow> fetchApiEndpoint path True a1 n2)"
    using assms(1-4) g by (simp add: fetchApiEndpoint_first fetch_eq split: sum.splits)
  show ?thesis
  proof (cases ra)
    case (Inl e)
    then have "res = Inl e" "n' = n2" using first assms(5) by auto
    then show ?thesis using g Inl sent cnt flt nl dr [of a] ap [of "[dataRequest addr path a]"] lg
      by simp
  next
    case (Inr u)
    then have l2: "length new = 2" using len by simp
    have run: "fetchApiEndpoint path True a1 n2 = (res, a', n')"
      using first assms(5) Inr by simp
    have k: "length (sent n2) = length (sent n) + 4" using sent l2 by simp
    from run have n': "sent n' = sent n2 @ [dataRequest addr path a1]"
      by (auto simp: fetchApiEndpoint_retry addr fetch_eq split: outcome.splits if_splits)
    from run have res: "(case responses n (length (sent n) + 4) of
                    Failed m \<Rightarrow> res = Inl (Error m)
                  | Answered r' \<Rightarrow> if ok r' then res = Inr r' else res = Inl (fetchError r' a1))"
      by (auto simp: fetchApiEndpoint_retry addr fetch_eq k resp split: outcome.splits if_splits)
    have d: "drop (length (sent n)) (sent n') = dataRequest addr path a # ?login # new @ [dataRequest addr path a1]"
      by (simp add: n' sent)
    show ?thesis
      using g Inr res cnt flt nl [of a] nl [of a1] dr [of a] dr [of a1] lg
        ap [of "[dataRequest addr path a]"] ap [of new]
      by (simp add: d n' sent l2)
  qed
qed

text \<open>
  Claim C2, witness: two consecutive 401 answers give one login, two data requests, five
  requests in all and an error.
\<close>

theorem fetchApiEndpoint_reauth_witness:
  "count_list (sent (snd (snd (fetchApiEndpoint ''production.json'' False exampleApi persistent401))))
      (loginRequest ''owner@example.org'' ''secret'') = 1
   \<and> length (dataRequestsTo ''envoy.local'' ''production.json''
        (sent (snd (snd (fetchApiEndpoint ''production.json'' False exampleApi persistent401))))) = 2
   \<and> length (sent (snd (snd (fetchApiEndpoint ''production.json'' False exampleApi persistent401)))) = 5
   \<and> isl (fst (fetchApiEndpoint ''production.json'' False exampleApi persistent401))"
proof -
  let ?run = "fetchApiEndpoint ''production.json'' False exampleApi persistent401"
  have s: "sent persistent401 = []" by (simp add: persistent401_def script_def)
  have a: "address exampleApi = Some ''envoy.local''" by (simp add: exampleApi_def)
  have r: "responses persistent401 (length (sent persistent401))
             = Answered \<lparr>status = 401, bodyText = [], bodyJson = notJson, setCookie = None\<rparr>"
    by (simp add: persistent401_def script_def reply_def)
  have lo: "400 \<le> status \<lparr>status = 401, bodyText = [], bodyJson = notJson, setCookie = None\<rparr>"
    and hi: "status \<lparr>status = 401, bodyText = [], bodyJson = notJson, setCookie = None\<rparr> < 500"
    by simp_all
  have e: "?run = (fst ?run, fst (snd ?run), snd (snd ?run))" by simp
  have u: "username exampleApi = ''owner@example.org''" "password exampleApi = ''secret''"
    by (simp_all add: exampleApi_def)
  have l: "responses persistent401 4
             = Answered \<lparr>status = 401, bodyText = [], bodyJson = notJson, setCookie = None\<rparr>"
    by (simp add: persistent401_def script_def reply_def)
  from fetchApiEndpoint_reauth [OF a r lo hi e] persistent401_auth show ?thesis
    by (simp add: s u l ok_def)
qed

text \<open>
  Claim C2 as stated fails: when the gateway also rejects the token check, the data
  request is issued once and never repeated.
\<close>

theorem fetchApiEndpoint_reauth_counterexample:
  "responses gatewayRejects 0 = reply 401 [] notJson None
   \<and> length (dataRequestsTo ''envoy.local'' ''production.json''
        (sent (snd (snd (fetchApiEndpoint ''production.json'' False exampleApi gatewayRejects))))) = 1"
  by (simp add: gatewayRejects_run)
    (simp add: gatewayRejects_def script_def dataRequestsTo_def dataRequest_def loginRequest_def
      tokenRequest_def checkJwtRequest_def)

subsection \<open>The metering decision\<close>

text \<open>
  Claim C4. The computed value of \<^verbatim>\<open>isMetered\<close> is \<^verbatim>\<open>true\<close> exactly when the meter list is
  not empty and every entry's measurement type is net-consumption or production, and it
  is truthy in exactly that case; for the empty list it is the falsy number 0.
\<close>

theorem meteringDecision_iff:
  "(meteringDecision ms = JsBool True \<longleftrightarrow>
      ms \<noteq> [] \<and> (\<forall>m\<in>set ms. measurementType m = ''net-consumption'' \<or> measurementType m = ''production''))
   \<and> (truthy (meteringDecision ms) \<longleftrightarrow>
      ms \<noteq> [] \<and> (\<forall>m\<in>set ms. measurementType m = ''net-consumption'' \<or> measurementType m = ''production''))
   \<and> (ms = [] \<longrightarrow> meteringDecision ms = JsNum 0)"
  by (auto simp: meteringDecision_def jsAnd_def NET_CONSUMPTION_METER_def PRODUCTION_METER_def
      list_all_iff)

text \<open>Claim C4, witness: the three meter lists of the claim.\<close>

theorem meteringDecision_iff_witness:
  "meteringDecision [\<lparr>eid = 1, measurementType = ''production''\<rparr>,
                     \<lparr>eid = 2, measurementType = ''net-consumption''\<rparr>] = JsBool True
   \<and> \<not> truthy (meteringDecision [\<lparr>eid = 1, measurementType = ''other''\<rparr>])
   \<and> \<not> truthy (meteringDecision [])"
  using meteringDecision_iff [of "[\<lparr>eid = 1, measurementType = ''production''\<rparr>,
                     \<lparr>eid = 2, measurementType = ''net-consumption''\<rparr>]"]
    meteringDecision_iff [of "[\<lparr>eid = 1, measurementType = ''other''\<rparr>]"]
    meteringDecision_iff [of "[]"]
  by simp

subsection \<open>The override of the metering decision\<close>

text \<open>
  Claim C3. A poll never fetches the meter readings, with which the metered branch
  begins, whatever the meter list is; and a poll that ends with the device available has
  set the consumption and grid readings to 0, as the unmetered branch does.
\<close>

theorem checkProduction_never_metered:
  assumes "checkProduction d n = (d', n')"
  shows "(\<forall>addr. dataRequestsTo addr ''ivp/meters/readings'' (sent n')
                = dataRequestsTo addr ''ivp/meters/readings'' (sent n))
       \<and> (available d' \<longrightarrow> capabilities d' ''measure_power.consumption'' = Some (Fin 0)
                           \<and> capabilities d' ''measure_power.grid'' = Some (Fin 0))"
proof (cases "enphaseApi d")
  case None
  then show ?thesis using assms by (auto simp: checkProduction_cases setUnavailable_def)
next
  case (Some a)
  let ?d0 = "log (LogText ''Checking production'') d"
  obtain rt a1 d1 n1 where t: "tryBlock a ?d0 n = (rt, a1, d1, n1)"
    by (cases "tryBlock a ?d0 n") auto
  have n1: "n' = n1" using assms Some t by (auto simp: checkProduction_cases split: sum.splits)
  have tr: "\<forall>addr. dataRequestsTo addr ''ivp/meters/readings'' (sent n')
                = dataRequestsTo addr ''ivp/meters/readings'' (sent n)"
    using tryBlock_net [OF t] n1 by simp
  show ?thesis
  proof (cases rt)
    case (Inl e)
    then have "\<not> available d'" using assms Some t
      by (auto simp: checkProduction_cases setUnavailable_def)
    then show ?thesis using tr by simp
  next
    case (Inr u)
    from tryBlock_success [OF t [unfolded Inr]] assms Some t Inr
    have "capabilities d' ''measure_power.consumption'' = Some (Fin 0)
        \<and> capabilities d' ''measure_power.grid'' = Some (Fin 0)"
      by (auto simp: checkProduction_cases device_defs)
    then show ?thesis using tr by simp
  qed
qed

text \<open>
  Claim C3, witness: a meter list for which the computed decision is truthy, and a poll
  that still takes the unmetered path.
\<close>

theorem checkProduction_never_metered_witness:
  "truthy (meteringDecision meteredMeters)
   \<and> dataRequestsTo ''envoy.local'' ''ivp/meters/readings''
        (sent (snd (checkProduction exampleDevice sunnyDay))) = []
   \<and> available (fst (checkProduction exampleDevice sunnyDay))
   \<and> capabilities (fst (checkProduction exampleDevice sunnyDay)) ''measure_power.consumption'' = Some (Fin 0)
   \<and> capabilities (fst (checkProduction exampleDevice sunnyDay)) ''measure_power.grid'' = Some (Fin 0)"
proof -
  have r: "checkProduction exampleDevice sunnyDay
         = (fst (checkProduction exampleDevice sunnyDay), snd (checkProduction exampleDevice sunnyDay))"
    by simp
  have s: "sent sunnyDay = []" by (simp add: sunnyDay_def script_def)
  have m: "truthy (meteringDecision meteredMeters)"
    by (simp add: meteringDecision_def jsAnd_def meteredMeters_def NET_CONSUMPTION_METER_def
        PRODUCTION_METER_def)
  have t: "dataRequestsTo ''envoy.local'' ''ivp/meters/readings''
             (sent (snd (checkProduction exampleDevice sunnyDay)))
           = dataRequestsTo ''envoy.local'' ''ivp/meters/readings'' (sent sunnyDay)"
    and c: "available (fst (checkProduction exampleDevice sunnyDay)) \<longrightarrow>
         capabilities (fst (checkProduction exampleDevice sunnyDay)) ''measure_power.consumption'' = Some (Fin 0)
       \<and> capabilities (fst (checkProduction exampleDevice sunnyDay)) ''measure_power.grid'' = Some (Fin 0)"
    using checkProduction_never_metered [OF r] by blast+
  show ?thesis
    using t c sunnyDay_run m by (simp add: s dataRequestsTo_def)
qed

subsection \<open>The unmetered readings\<close>

text \<open>
  Claim C5. A poll that ends with the device available has fetched a meter list and a
  production report with a first production entry; the production power reading is that
  entry's \<^verbatim>\<open>wNow\<close>, the consumption and grid readings are 0, and the energy reading is 0
  whatever the report's watt-hours figure is.
\<close>

theorem unmetered_poll_readings:
  assumes "checkProduction d n = (d', n')" and "available d'"
  shows "\<exists>a ms a1 n1 rep a2 e es.
           enphaseApi d = Some a \<and> getMeters a n = (Inr ms, a1, n1)
         \<and> getProductionData a1 n1 = (Inr rep, a2, n') \<and> production rep = e # es
         \<and> capabilities d' ''measure_power'' = Some (wNow e)
         \<and> capabilities d' ''measure_power.consumption'' = Some (Fin 0)
         \<and> capabilities d' ''measure_power.grid'' = Some (Fin 0)
         \<and> capabilities d' ''meter_power'' = Some (Fin 0)"
proof (cases "enphaseApi d")
  case None
  then show ?thesis using assms by (auto simp: checkProduction_cases setUnavailable_def)
next
  case (Some a)
  let ?d0 = "log (LogText ''Checking production'') d"
  obtain rt a1 d1 n1 where t: "tryBlock a ?d0 n = (rt, a1, d1, n1)"
    by (cases "tryBlock a ?d0 n") auto
  show ?thesis
  proof (cases rt)
    case (Inl e)
    then have "\<not> available d'" using assms(1) Some t
      by (auto simp: checkProduction_cases setUnavailable_def)
    then show ?thesis using assms(2) by simp
  next
    case (Inr u)
    have d': "d' = d1\<lparr>enphaseApi := Some a1\<rparr>" "n' = n1"
      using assms(1) Some t Inr by (auto simp: checkProduction_cases)
    from tryBlock_success [OF t [unfolded Inr]] obtain ms a0 n0 rep e es where
      "getMeters a n = (Inr ms, a0, n0)" "getProductionData a0 n0 = (Inr rep, a1, n1)"
      "production rep = e # es"
      "capabilities d1 ''measure_power'' = Some (wNow e)"
      "capabilities d1 ''measure_power.consumption'' = Some (Fin 0)"
      "capabilities d1 ''measure_power.grid'' = Some (Fin 0)"
      "capabilities d1 ''meter_power'' = Some (Fin 0)"
      by (auto simp: device_defs)
    then show ?thesis using Some d' by auto
  qed
qed

text \<open>Claim C5, witness: a report with \<^verbatim>\<open>wNow\<close> 842 and 3100 watt-hours.\<close>

theorem unmetered_poll_readings_witness:
  "available (fst (checkProduction exampleDevice sunnyDay))
   \<and> capabilities (fst (checkProduction exampleDevice sunnyDay)) ''measure_power'' = Some (Fin 842)
   \<and> capabilities (fst (checkProduction exampleDevice sunnyDay)) ''meter_power'' = Some (Fin 0)"
proof -
  have r: "checkProduction exampleDevice sunnyDay
         = (fst (checkProduction exampleDevice sunnyDay), snd (checkProduction exampleDevice sunnyDay))"
    by simp
  have a: "available (fst (checkProduction exampleDevice sunnyDay))"
    using sunnyDay_run by simp
  from unmetered_poll_readings [OF r a] sunnyDay_run show ?thesis by simp
qed

subsection \<open>A failing poll\<close>

text \<open>
  Claim C6. When the fetch of the meter list throws, or the fetch of the production
  report throws, the poll aborts there: no further request is issued, no reading is
  changed, nothing more is logged than the failure, and the poll ends with the device
  unavailable and the message given to \<^verbatim>\<open>setUnavailable\<close> equal to the message of the error
  thrown. Whatever throws in the try block, the poll ends in the state of the throw with
  the failure logged and the device unavailable with that message.
\<close>

theorem poll_failure_unavailable:
  assumes "enphaseApi d = Some a"
  shows "(\<forall>e a1 n1. getMeters a n = (Inl e, a1, n1) \<longrightarrow>
            \<not> available (fst (checkProduction d n))
            \<and> unavailableMessage (fst (checkProduction d n)) = Some (message e)
            \<and> snd (checkProduction d n) = n1
            \<and> enphaseApi (fst (checkProduction d n)) = Some a1
            \<and> capabilities (fst (checkProduction d n)) = capabilities d
            \<and> homeyLog (fst (checkProduction d n))
                = homeyLog d @ [LogText ''Checking production'',
                                LogText (''Unavailable: '' @ message e)])
       \<and> (\<forall>ms a1 n1 e a2 n2.
            getMeters a n = (Inr ms, a1, n1) \<and> getProductionData a1 n1 = (Inl e, a2, n2) \<longrightarrow>
            \<not> available (fst (checkProduction d n))
            \<and> unavailableMessage (fst (checkProduction d n)) = Some (message e)
            \<and> snd (checkProduction d n) = n2
            \<and> enphaseApi (fst (checkProduction d n)) = Some a2
            \<and> capabilities (fst (checkProduction d n)) = capabilities d
            \<and> homeyLog (fst (checkProduction d n))
                = homeyLog d @ [LogText ''Checking production'', LogMeters ms,
                                LogText (''Unavailable: '' @ message e)])
       \<and> (\<forall>e a1 d1 n1.
            tryBlock a (log (LogText ''Checking production'') d) n = (Inl e, a1, d1, n1) \<longrightarrow>
            \<not> available (fst (checkProduction d n))
            \<and> unavailableMessage (fst (checkProduction d n)) = Some (message e)
            \<and> checkProduction d n
                = ((setUnavailable (message e) (log (LogText (''Unavailable: '' @ message e)) d1))
                     \<lparr>enphaseApi := Some a1\<rparr>, n1))"
proof (intro conjI allI impI)
  fix e a1 n1
  assume g: "getMeters a n = (Inl e, a1, n1)"
  have c: "checkProduction d n
         = ((setUnavailable (message e)
               (log (LogText (''Unavailable: '' @ message e))
                  (log (LogText ''Checking production'') d)))\<lparr>enphaseApi := Some a1\<rparr>, n1)"
    using assms g by (simp add: checkProduction_cases tryBlock_eq)
  show "\<not> available (fst (checkProduction d n))"
    and "unavailableMessage (fst (checkProduction d n)) = Some (message e)"
    and "snd (checkProduction d n) = n1"
    and "enphaseApi (fst (checkProduction d n)) = Some a1"
    and "capabilities (fst (checkProduction d n)) = capabilities d"
    and "homeyLog (fst (checkProduction d n))
          = homeyLog d @ [LogText ''Checking production'', LogText (''Unavailable: '' @ message e)]"
    by (simp_all add: c device_defs)
next
  fix ms a1 n1 e a2 n2
  assume g: "getMeters a n = (Inr ms, a1, n1) \<and> getProductionData a1 n1 = (Inl e, a2, n2)"
  have c: "checkProduction d n
         = ((setUnavailable (message e)
               (log (LogText (''Unavailable: '' @ message e))
                  (log (LogMeters ms) (log (LogText ''Checking production'') d))))
              \<lparr>enphaseApi := Some a2\<rparr>, n2)"
    using assms g by (simp add: checkProduction_cases tryBlock_eq pollWith_unmetered)
  show "\<not> available (fst (checkProduction d n))"
    and "unavailableMessage (fst (checkProduction d n)) = Some (message e)"
    and "snd (checkProduction d n) = n2"
    and "enphaseApi (fst (checkProduction d n)) = Some a2"
    and "capabilities (fst (checkProduction d n)) = capabilities d"
    and "homeyLog (fst (checkProduction d n))
          = homeyLog d @ [LogText ''Checking production'', LogMeters ms,
                          LogText (''Unavailable: '' @ message e)]"
    by (simp_all add: c device_defs)
next
  fix e a1 d1 n1
  assume t: "tryBlock a (log (LogText ''Checking production'') d) n = (Inl e, a1, d1, n1)"
  show c: "checkProduction d n
         = ((setUnavailable (message e) (log (LogText (''Unavailable: '' @ message e)) d1))
              \<lparr>enphaseApi := Some a1\<rparr>, n1)"
    using assms t by (simp add: checkProduction_cases)
  show "\<not> available (fst (checkProduction d n))"
    and "unavailableMessage (fst (checkProduction d n)) = Some (message e)"
    by (simp_all add: c device_defs)
qed

text \<open>
  Claim C6, witness: the network fails at the fetch of the meter list; one request was
  issued and the readings are those from before the poll.
\<close>

theorem poll_failure_unavailable_witness:
  "\<not> available (fst (checkProduction exampleDevice unreachable))
   \<and> unavailableMessage (fst (checkProduction exampleDevice unreachable))
       = Some ''network is unreachable''
   \<and> sent (snd (checkProduction exampleDevice unreachable))
       = [dataRequest ''envoy.local'' ''ivp/meters'' exampleApi]
   \<and> capabilities (fst (checkProduction exampleDevice unreachable)) = capabilities exampleDevice"
proof -
  have a: "enphaseApi exampleDevice = Some exampleApi" by (simp add: exampleDevice_def)
  from poll_failure_unavailable [OF a, of unreachable] unreachable_run show ?thesis
    by simp
qed

subsection \<open>Self-consumption\<close>

text \<open>
  Claim C8. When the metered branch finds both active powers by the eid join, it reports
  the production power as production, the grid consumption power as grid, and as
  consumption their sum, as the operator \<^verbatim>\<open>+\<close> of the language gives it on two numbers. For
  integer readings whose sum is a safe integer (below \<open>2 ^ 53\<close> in absolute value) that sum
  is the exact one.
\<close>

theorem metered_self_consumption:
  assumes "getMeterReadings a n = (Inr rs, a1, n1)"
      and "joinActivePower PRODUCTION_METER ms rs = Some p"
      and "joinActivePower NET_CONSUMPTION_METER ms rs = Some g"
  shows "fst (meteredBranch ms a d n) = Inr ()
       \<and> capabilities (deviceAfter (meteredBranch ms a d n)) ''measure_power'' = Some p
       \<and> capabilities (deviceAfter (meteredBranch ms a d n)) ''measure_power.consumption''
           = Some (jsAdd p g)
       \<and> capabilities (deviceAfter (meteredBranch ms a d n)) ''measure_power.grid'' = Some g
       \<and> (\<forall>i j. p = Fin (of_int i) \<and> g = Fin (of_int j) \<and> \<bar>i + j\<bar> < 2 ^ 53 \<longrightarrow>
             capabilities (deviceAfter (meteredBranch ms a d n)) ''measure_power.consumption''
               = Some (Fin (of_int (i + j))))"
proof -
  have c: "capabilities (deviceAfter (meteredBranch ms a d n)) ''measure_power.consumption''
             = Some (jsAdd p g)"
    using assms by (simp add: meteredBranch_def deviceAfter_def Let_def device_defs)
  have r: "fst (meteredBranch ms a d n) = Inr ()
       \<and> capabilities (deviceAfter (meteredBranch ms a d n)) ''measure_power'' = Some p
       \<and> capabilities (deviceAfter (meteredBranch ms a d n)) ''measure_power.grid'' = Some g"
    using assms by (simp add: meteredBranch_def deviceAfter_def Let_def device_defs)
  have x: "\<forall>i j. p = Fin (of_int i) \<and> g = Fin (of_int j) \<and> \<bar>i + j\<bar> < 2 ^ 53 \<longrightarrow>
             capabilities (deviceAfter (meteredBranch ms a d n)) ''measure_power.consumption''
               = Some (Fin (of_int (i + j)))"
  proof (intro allI impI)
    fix i j :: int
    assume h: "p = Fin (of_int i) \<and> g = Fin (of_int j) \<and> \<bar>i + j\<bar> < 2 ^ 53"
    then have "jsAdd p g = Fin (of_int (i + j))" by (metis jsAdd_int)
    then show "capabilities (deviceAfter (meteredBranch ms a d n)) ''measure_power.consumption''
               = Some (Fin (of_int (i + j)))"
      using c by (simp only:)
  qed
  show ?thesis using c r x by blast
qed

text \<open>Claim C8, witness: 500 W produced and -120 W from the grid give 380 W.\<close>

theorem metered_self_consumption_witness:
  "capabilities (deviceAfter (meteredBranch meteredMeters exampleApi exampleDevice exporting))
       ''measure_power.consumption'' = Some (Fin 380)
   \<and> capabilities (deviceAfter (meteredBranch meteredMeters exampleApi exampleDevice exporting))
       ''measure_power'' = Some (Fin 500)
   \<and> capabilities (deviceAfter (meteredBranch meteredMeters exampleApi exampleDevice exporting))
       ''measure_power.grid'' = Some (Fin (- 120))"
proof -
  have p: "joinActivePower PRODUCTION_METER meteredMeters
             [\<lparr>readingEid = 1, activePower = Fin 500\<rparr>,
              \<lparr>readingEid = 2, activePower = Fin (- 120)\<rparr>] = Some (Fin 500)"
    by (simp add: joinActivePower_def PRODUCTION_METER_def meteredMeters_def falsy_def)
  have g: "joinActivePower NET_CONSUMPTION_METER meteredMeters
             [\<lparr>readingEid = 1, activePower = Fin 500\<rparr>,
              \<lparr>readingEid = 2, activePower = Fin (- 120)\<rparr>] = Some (Fin (- 120))"
    by (simp add: joinActivePower_def NET_CONSUMPTION_METER_def meteredMeters_def falsy_def)
  note t = metered_self_consumption [OF exporting_run p g, of exampleDevice]
  have "Fin 500 = Fin (of_int 500) \<and> Fin (- 120) = Fin (of_int (- 120))
        \<and> \<bar>500 + (- 120) :: int\<bar> < 2 ^ 53"
    by simp
  with t have "capabilities (deviceAfter (meteredBranch meteredMeters exampleApi exampleDevice exporting))
       ''measure_power.consumption'' = Some (Fin (of_int (500 + (- 120))))"
    by blast
  with t show ?thesis by simp
qed

subsection \<open>A missing join\<close>

text \<open>
  Claim C9. In a metered poll whose fetches succeed and whose eid join misses the
  production or the net-consumption power, the poll does not throw, the device ends
  available, the production, consumption and grid readings are as before the poll, and
  the last log entry is the diagnostic.
\<close>

theorem metered_join_miss:
  assumes "truthy isMetered"
      and "getProductionData a n = (Inr rep, a1, n1)"
      and "getMeterReadings a1 n1 = (Inr rs, a2, n2)"
      and "joinActivePower PRODUCTION_METER ms rs = None
           \<or> joinActivePower NET_CONSUMPTION_METER ms rs = None"
  shows "fst (pollWith isMetered ms a d n) = Inr ()
       \<and> available (deviceAfter (pollWith isMetered ms a d n))
       \<and> capabilities (deviceAfter (pollWith isMetered ms a d n)) ''measure_power''
           = capabilities d ''measure_power''
       \<and> capabilities (deviceAfter (pollWith isMetered ms a d n)) ''measure_power.consumption''
           = capabilities d ''measure_power.consumption''
       \<and> capabilities (deviceAfter (pollWith isMetered ms a d n)) ''measure_power.grid''
           = capabilities d ''measure_power.grid''
       \<and> last (homeyLog (deviceAfter (pollWith isMetered ms a d n))) = joinDiagnostic"
  using assms
  by (auto simp: pollWith_def meteredBranch_def deviceAfter_def Let_def device_defs
      split: option.splits)

text \<open>Claim C9, witness: the readings have no entry for the production meter.\<close>

theorem metered_join_miss_witness:
  "available (deviceAfter (pollWith (JsBool True) meteredMeters exampleApi exampleDevice productionMissing))
   \<and> capabilities (deviceAfter (pollWith (JsBool True) meteredMeters exampleApi exampleDevice productionMissing))
        ''measure_power'' = Some (Fin 111)
   \<and> capabilities (deviceAfter (pollWith (JsBool True) meteredMeters exampleApi exampleDevice productionMissing))
        ''measure_power.consumption'' = Some (Fin 222)
   \<and> capabilities (deviceAfter (pollWith (JsBool True) meteredMeters exampleApi exampleDevice productionMissing))
        ''measure_power.grid'' = Some (Fin 333)"
proof -
  have t: "truthy (JsBool True)" by simp
  have j: "joinActivePower PRODUCTION_METER meteredMeters [\<lparr>readingEid = 2, activePower = Fin (- 120)\<rparr>] = None
         \<or> joinActivePower NET_CONSUMPTION_METER meteredMeters [\<lparr>readingEid = 2, activePower = Fin (- 120)\<rparr>] = None"
    by (simp add: joinActivePower_def PRODUCTION_METER_def meteredMeters_def falsy_def)
  from metered_join_miss [OF t productionMissing_run j, of exampleDevice] show ?thesis
    by (simp add: exampleDevice_def)
qed

subsection \<open>A reading of zero\<close>

text \<open>
  Claim C10. When the reading found for a meter type has an active power of exactly 0
  (either zero of the number type), the join gives null for it; for the production and the net-consumption meter the
  metered branch then logs the diagnostic and updates no reading.
\<close>

theorem zero_power_is_missing:
  assumes "find (\<lambda>m. measurementType m = t) ms = Some m"
      and "find (\<lambda>r. readingEid r = eid m) rs = Some r"
      and "activePower r = Fin 0 \<or> activePower r = NegZero"
  shows "joinActivePower t ms rs = None
       \<and> (t = PRODUCTION_METER \<or> t = NET_CONSUMPTION_METER \<longrightarrow>
          getMeterReadings a n = (Inr rs, a1, n1) \<longrightarrow>
          meteredBranch ms a d n = (Inr (), a1, log joinDiagnostic d, n1))"
proof -
  have j: "joinActivePower t ms rs = None"
    using assms by (auto simp: joinActivePower_def falsy_def)
  then show ?thesis
    by (auto simp: meteredBranch_def Let_def split: option.splits)
qed

text \<open>Claim C10, witness: the production meter reads 0 W.\<close>

theorem zero_power_is_missing_witness:
  "joinActivePower PRODUCTION_METER meteredMeters
     [\<lparr>readingEid = 1, activePower = Fin 0\<rparr>, \<lparr>readingEid = 2, activePower = Fin (- 120)\<rparr>] = None
   \<and> deviceAfter (meteredBranch meteredMeters exampleApi exampleDevice idleProduction)
       = log joinDiagnostic exampleDevice"
proof -
  have m: "find (\<lambda>m. measurementType m = PRODUCTION_METER) meteredMeters
             = Some \<lparr>eid = 1, measurementType = ''production''\<rparr>"
    by (simp add: PRODUCTION_METER_def meteredMeters_def)
  have r: "find (\<lambda>r. readingEid r = eid \<lparr>eid = 1, measurementType = ''production''\<rparr>)
             [\<lparr>readingEid = 1, activePower = Fin 0\<rparr>, \<lparr>readingEid = 2, activePower = Fin (- 120)\<rparr>]
             = Some \<lparr>readingEid = 1, activePower = Fin 0\<rparr>"
    by simp
  have z: "activePower \<lparr>readingEid = 1, activePower = Fin 0\<rparr> = Fin 0
         \<or> activePower \<lparr>readingEid = 1, activePower = Fin 0\<rparr> = NegZero"
    by simp
  from zero_power_is_missing [OF m r z, of exampleApi idleProduction _ _ exampleDevice]
    idleProduction_run
  show ?thesis by (simp add: deviceAfter_def)
qed

end
